theory Spec2Isabelle
  imports Complex_Main
begin

section \<open>Data model of suite2p/registration/main.py\<close>

text \<open>
  The module holds one function, \<open>register_binary(ops, refImg=None, raw=True)\<close>. It
  drives collaborators that live in other modules (\<open>nonrigid.make_blocks\<close>,
  \<open>register.bin_paths\<close>, \<open>register.compute_reference_image\<close>,
  \<open>register.prepare_refAndMasks\<close>, \<open>register.register_binary_to_ref\<close>,
  \<open>register.apply_shifts_to_binary\<close>, \<open>register.compute_crop\<close>, \<open>io\<close>, \<open>os.path\<close>
  and numpy). Those are parameters of the model, collected in the record \<open>env\<close>;
  nothing is assumed about them in the definitions.

  Console output (\<open>print\<close>) and timing (\<open>time.time\<close>) are left out. Every \<open>raise\<close>
  and every exception of a dictionary or array access is a value of \<open>error\<close>.
\<close>

datatype error =
    FrameCountError
    \<comment> \<open>line 55: Exception('ERROR: the total number of frames should be at least 50 ')\<close>
  | KeyError string
  | ZeroDivisionError
  | OSError string
  | ValueError
  | IndexError
  | UnboundLocalError string
  | Raised string
    \<comment> \<open>an exception raised inside a collaborator\<close>

text \<open>
  A two-dimensional numpy array of shape \<open>(length rows, ncols)\<close>. One-dimensional
  arrays are lists. The float32 entries are idealised as reals: rounding is not modelled.
\<close>

datatype arr2 = Arr2 (ncols: nat) (rows: "real list list")

text \<open>The list \<open>offsets\<close>: its six arrays \<open>offsets[0]\<close> .. \<open>offsets[5]\<close>.\<close>

record offsets =
  offsets0 :: "real list"
  offsets1 :: "real list"
  offsets2 :: "real list"
  offsets3 :: arr2
  offsets4 :: arr2
  offsets5 :: arr2

text \<open>
  The dictionary \<open>ops\<close>. A key that \<open>register_binary\<close> tests for presence, creates, or
  reads only after a collaborator may have created it is an \<open>option\<close> field (\<open>None\<close>:
  the key is absent); the other keys it reads are required fields. Keys it never touches
  live in the record's extension. Images are opaque (type \<open>'img\<close>).
\<close>

record 'img ops =
  Ly :: int
  Lx :: int
  batch_size :: int
  nframes :: int
  frames_include :: int
  nonrigid :: bool
  nchannels :: int
  functional_chan :: int
  align_by_chan :: int
  reg_tif :: bool
  reg_tif_chan2 :: bool
  save_path :: string
  reg_file :: string
  bidiphase :: int
  bidi_corrected :: bool
  keep_movie_raw :: "bool option"
  raw_file :: "string option"
  data_path :: "string list option"
  ops_path :: "string option"
  nblocks :: "(int \<times> int) option"
  xblock :: "int list option"
  yblock :: "int list option"
  refImg :: "'img option"
  meanImg :: "'img option"
  meanImage_chan2 :: "'img option"
  meanImag :: "'img option"
  meanImg_chan2 :: "'img option"
  yoff :: "real list option"
  xoff :: "real list option"
  corrXY :: "real list option"
  yoff1 :: "arr2 option"
  xoff1 :: "arr2 option"
  corrXY1 :: "arr2 option"
  badframes :: "bool list option"

text \<open>The argument of \<open>register_binary\<close>: one dictionary, or a list (or array) of arguments.\<close>

datatype ('img, 'z) arg =
    One "('img, 'z) ops_scheme"
  | Many "('img, 'z) arg list"

text \<open>What the run does to the outside world, in order.\<close>

datatype ('img, 'dat, 'z) event =
    ReferenceBuilt "string option"
    \<comment> \<open>\<open>compute_reference_image(ops, file)\<close> was called\<close>
  | AlignmentPass
    \<comment> \<open>\<open>register_binary_to_ref\<close> was run\<close>
  | ShiftPass
    \<comment> \<open>\<open>apply_shifts_to_binary\<close> was run\<close>
  | SaveTiff string 'dat
    \<comment> \<open>\<open>io.save_tiff(data=data, fname=fname)\<close>\<close>
  | SaveOps string "('img, 'z) ops_scheme"
    \<comment> \<open>\<open>np.save(ops['ops_path'], ops)\<close>\<close>

type_synonym ('img, 'dat, 'z, 'a) run = "('img, 'dat, 'z) event list \<times> (error + 'a)"

text \<open>
  The collaborators. A generator is given by the list of what it yields and the exception
  that ends it, if any. \<open>np_load p\<close> is \<open>np.load(p).flatten().astype(int)\<close>, and
  \<open>img_div\<close> is numpy's division of an image by a scalar.
\<close>

record ('img, 'dat, 'msk, 'z) env =
  make_blocks :: "('img, 'z) ops_scheme \<Rightarrow> error + ('img, 'z) ops_scheme"
  getsize :: "string \<Rightarrow> nat option"
  path_exists :: "string \<Rightarrow> bool"
  path_isfile :: "string \<Rightarrow> bool"
  abspath_join :: "string \<Rightarrow> string \<Rightarrow> string"
  np_load :: "string \<Rightarrow> int list option"
  img_div :: "'img \<Rightarrow> int \<Rightarrow> 'img"
  bin_paths :: "('img, 'z) ops_scheme \<Rightarrow> bool
    \<Rightarrow> string option \<times> string option \<times> string option \<times> string option"
  compute_reference_image :: "('img, 'z) ops_scheme \<Rightarrow> string option \<Rightarrow> error + ('img \<times> int)"
  prepare_refAndMasks :: "'img \<Rightarrow> ('img, 'z) ops_scheme \<Rightarrow> 'msk"
  register_binary_to_ref :: "int \<Rightarrow> int \<Rightarrow> int \<Rightarrow> int \<Rightarrow> ('img, 'z) ops_scheme \<Rightarrow> 'msk
    \<Rightarrow> string option \<Rightarrow> string option
    \<Rightarrow> (('img, 'z) ops_scheme \<times> offsets \<times> 'img \<times> 'dat \<times> int) list \<times> error option"
  apply_shifts_to_binary :: "int \<Rightarrow> int \<Rightarrow> int \<Rightarrow> int \<Rightarrow> bool \<Rightarrow> int \<Rightarrow> bool \<Rightarrow> int \<times> int
    \<Rightarrow> int list \<Rightarrow> int list \<Rightarrow> offsets \<Rightarrow> string option \<Rightarrow> string option
    \<Rightarrow> ('img \<times> 'dat) list \<times> error option"
  generate_tiff_filename :: "int \<Rightarrow> int \<Rightarrow> string \<Rightarrow> nat \<Rightarrow> bool \<Rightarrow> string"
  compute_crop :: "('img, 'z) ops_scheme \<Rightarrow> ('img, 'z) ops_scheme"

section \<open>Sequencing\<close>

definition bind_run :: "('img, 'dat, 'z, 'a) run \<Rightarrow> ('a \<Rightarrow> ('img, 'dat, 'z, 'b) run)
    \<Rightarrow> ('img, 'dat, 'z, 'b) run" where
  "bind_run m f =
     (case m of
        (l, Inl e) \<Rightarrow> (l, Inl e)
      | (l, Inr x) \<Rightarrow> (case f x of (l', r) \<Rightarrow> (l @ l', r)))"

definition quiet :: "error + 'a \<Rightarrow> ('img, 'dat, 'z, 'a) run" where
  "quiet r = ([], r)"

section \<open>numpy\<close>

text \<open>\<open>np.zeros((n,), t)\<close> and \<open>np.zeros((n, nb), t)\<close>: a negative dimension is a ValueError.\<close>

definition np_zeros :: "int \<Rightarrow> 'a \<Rightarrow> error + 'a list" where
  "np_zeros n z = (if n < 0 then Inl ValueError else Inr (replicate (nat n) z))"

definition np_zeros2 :: "int \<Rightarrow> int \<Rightarrow> error + arr2" where
  "np_zeros2 n nb =
     (if n < 0 \<or> nb < 0 then Inl ValueError
      else Inr (Arr2 (nat nb) (replicate (nat n) (replicate (nat nb) 0))))"

text \<open>
  \<open>a += b\<close> on one-dimensional arrays: \<open>b\<close> is broadcast to the shape of \<open>a\<close>, which
  needs equal lengths or a \<open>b\<close> of length one; anything else is a ValueError.
\<close>

definition iadd :: "real list \<Rightarrow> real list \<Rightarrow> error + real list" where
  "iadd a b =
     (if length b = length a then Inr (map2 (+) a b)
      else if length b = 1 then Inr (map (\<lambda>x. x + hd b) a)
      else Inl ValueError)"

definition wf_arr2 :: "arr2 \<Rightarrow> bool" where
  "wf_arr2 a = list_all (\<lambda>r. length r = ncols a) (rows a)"

text \<open>One row of \<open>a += b\<close> in two dimensions (the widths are already known to fit).\<close>

definition iadd_row :: "real list \<Rightarrow> real list \<Rightarrow> real list" where
  "iadd_row r s = (if length s = length r then map2 (+) r s else map (\<lambda>x. x + hd s) r)"

definition iadd2 :: "arr2 \<Rightarrow> arr2 \<Rightarrow> error + arr2" where
  "iadd2 a b =
     (if \<not> wf_arr2 a \<or> \<not> wf_arr2 b then Inl ValueError
      else if \<not> (ncols b = ncols a \<or> ncols b = 1) then Inl ValueError
      else if length (rows b) = length (rows a)
        then Inr (Arr2 (ncols a) (map2 iadd_row (rows a) (rows b)))
      else if length (rows b) = 1
        then Inr (Arr2 (ncols a) (map (\<lambda>r. iadd_row r (hd (rows b))) (rows a)))
      else Inl ValueError)"

text \<open>
  \<open>bs[idx] = True\<close> for an integer index array: a negative index counts from the end,
  an index out of range is an IndexError.
\<close>

fun set_true :: "bool list \<Rightarrow> int list \<Rightarrow> error + bool list" where
  "set_true bs [] = Inr bs"
| "set_true bs (i # idx) =
     (let j = (if i < 0 then int (length bs) + i else i)
      in if j < 0 \<or> int (length bs) \<le> j then Inl IndexError
         else set_true (bs[nat j := True]) idx)"

text \<open>
  \<open>int(nbytes / d)\<close>: true division, then truncation towards zero. The quotient is
  taken exactly (the float quotient is exact for files below \<open>2^53\<close> bytes).
\<close>

definition int_truediv :: "nat \<Rightarrow> int \<Rightarrow> error + int" where
  "int_truediv nbytes d =
     (if d = 0 then Inl ZeroDivisionError
      else if 0 < d then Inr (int nbytes div d)
      else Inr (- (int nbytes div (- d))))"

definition bind_err :: "error + 'a \<Rightarrow> ('a \<Rightarrow> error + 'b) \<Rightarrow> error + 'b" where
  "bind_err m f = (case m of Inl e \<Rightarrow> Inl e | Inr x \<Rightarrow> f x)"

text \<open>\<open>d[key]\<close> on a key that may be absent.\<close>

definition lookup :: "string \<Rightarrow> 'a option \<Rightarrow> error + 'a" where
  "lookup key v = (case v of None \<Rightarrow> Inl (KeyError key) | Some x \<Rightarrow> Inr x)"

section \<open>register_binary, one dictionary\<close>

text \<open>
  Line 49, the argument of \<open>path.getsize\<close>: \<open>raw_file\<close> when
  \<open>ops.get('keep_movie_raw')\<close> is true and the file exists, else \<open>reg_file\<close>.
\<close>

definition measured_file :: "('img, 'dat, 'msk, 'z) env \<Rightarrow> ('img, 'z) ops_scheme
    \<Rightarrow> error + string" where
  "measured_file env ops =
     (if keep_movie_raw ops = Some True
      then bind_err (lookup ''raw_file'' (raw_file ops))
             (\<lambda>rf. Inr (if path_exists env rf then rf else reg_file ops))
      else Inr (reg_file ops))"

text \<open>Lines 46-50. \<open>path.getsize\<close> of a missing file raises.\<close>

definition resolve_nframes :: "('img, 'dat, 'msk, 'z) env \<Rightarrow> ('img, 'z) ops_scheme
    \<Rightarrow> error + ('img, 'z) ops_scheme" where
  "resolve_nframes env ops =
     (if frames_include ops \<noteq> - 1
      then Inr (ops\<lparr>nframes := min (nframes ops) (frames_include ops)\<rparr>)
      else
        bind_err (measured_file env ops) (\<lambda>f.
          case getsize env f of
            None \<Rightarrow> Inl (OSError f)
          | Some nbytes \<Rightarrow>
              bind_err (int_truediv nbytes (2 * Ly ops * Lx ops))
                (\<lambda>n. Inr (ops\<lparr>nframes := n\<rparr>))))"

text \<open>Lines 60-62: whether the raw file is the one registered.\<close>

definition resolve_raw :: "('img, 'dat, 'msk, 'z) env \<Rightarrow> ('img, 'z) ops_scheme \<Rightarrow> bool \<Rightarrow> bool" where
  "resolve_raw env ops raw =
     (if raw
      then keep_movie_raw ops = Some True \<and>
           (case raw_file ops of None \<Rightarrow> False | Some rf \<Rightarrow> path_isfile env rf)
      else raw)"

text \<open>The local variables that are live after line 76.\<close>

record ('img, 'z) prepared =
  p_ops :: "('img, 'z) ops_scheme"
  p_raw :: bool
  p_refImg :: 'img
  reg_file_align :: "string option"
  reg_file_alt :: "string option"
  raw_file_align :: "string option"
  raw_file_alt :: "string option"

text \<open>Lines 42-76: blocks, frame count, file paths, reference image.\<close>

definition prepare :: "('img, 'dat, 'msk, 'z) env \<Rightarrow> ('img, 'z) ops_scheme \<Rightarrow> 'img option \<Rightarrow> bool
    \<Rightarrow> ('img, 'dat, 'z, ('img, 'z) prepared) run" where
  "prepare env ops0 refImg0 raw0 =
     bind_run (quiet (if nonrigid ops0 then make_blocks env ops0 else Inr ops0)) (\<lambda>ops1.
     bind_run (quiet (resolve_nframes env ops1)) (\<lambda>ops.
       if nframes ops < 50 then quiet (Inl FrameCountError)
       else
         let raw = resolve_raw env ops raw0 in
         case bin_paths env ops raw of
           (rga, rgb, rwa, rwb) \<Rightarrow>
             bind_run
               (case refImg0 of
                  Some img \<Rightarrow> quiet (Inr (img, ops))
                | None \<Rightarrow>
                    (let f = (if raw then rwa else rga)
                     in ([ReferenceBuilt f],
                         bind_err (compute_reference_image env ops f)
                           (\<lambda>(img, bidi). Inr (img, ops\<lparr>bidiphase := bidi\<rparr>)))))
               (\<lambda>(img, ops').
                  quiet (Inr \<lparr>p_ops = ops'\<lparr>refImg := Some img\<rparr>, p_raw = raw, p_refImg = img,
                               reg_file_align = rga, reg_file_alt = rgb,
                               raw_file_align = rwa, raw_file_alt = rwb\<rparr>))))"

text \<open>
  Lines 92-100, for the batches from number \<open>k\<close> on. The loop rebinds \<open>ops\<close> at every
  batch, so \<open>reg_tif\<close> and the file name are read from the dictionary just yielded.
\<close>

fun align_loop :: "('img, 'dat, 'msk, 'z) env \<Rightarrow> nat
    \<Rightarrow> (('img, 'z) ops_scheme \<times> offsets \<times> 'img \<times> 'dat \<times> int) list
    \<Rightarrow> ('img, 'dat, 'z) event list" where
  "align_loop env k [] = []"
| "align_loop env k ((ops, offsets, sum_img, dat, nfr) # ys) =
     (if reg_tif ops
      then [SaveTiff (generate_tiff_filename env (functional_chan ops) (align_by_chan ops)
                        (save_path ops) k True) dat]
      else [])
     @ align_loop env (Suc k) ys"

text \<open>The loop variables of lines 82-91 as the last batch leaves them.\<close>

record ('img, 'z) aligned =
  a_ops :: "('img, 'z) ops_scheme"
  a_offsets :: offsets
  a_sum_img :: 'img
  a_k :: nat

text \<open>
  Lines 80-102. A generator that yields nothing leaves \<open>sum_img\<close> unbound, and line 105
  reads it first.
\<close>

definition align :: "('img, 'dat, 'msk, 'z) env \<Rightarrow> ('img, 'z) prepared
    \<Rightarrow> ('img, 'dat, 'z, ('img, 'z) aligned) run" where
  "align env p =
     (let ops = p_ops p;
          refAndMasks = prepare_refAndMasks env (p_refImg p) ops
      in case register_binary_to_ref env (batch_size ops) (Ly ops) (Lx ops) (nframes ops) ops
                refAndMasks (reg_file_align p) (raw_file_align p) of
           (ys, err) \<Rightarrow>
             (AlignmentPass # align_loop env 0 ys,
              case err of
                Some e \<Rightarrow> Inl e
              | None \<Rightarrow>
                  (if ys = [] then Inl (UnboundLocalError ''sum_img'')
                   else case last ys of
                          (ops', offsets, sum_img, dat, nfr) \<Rightarrow>
                            Inr \<lparr>a_ops = ops', a_offsets = offsets, a_sum_img = sum_img,
                                 a_k = length ys - 1\<rparr>)))"

text \<open>Lines 104-107: the new dictionary and the local \<open>mean_img\<close>.\<close>

definition mean_image :: "('img, 'dat, 'msk, 'z) env \<Rightarrow> ('img, 'z) ops_scheme \<Rightarrow> 'img
    \<Rightarrow> ('img, 'z) ops_scheme \<times> 'img" where
  "mean_image env ops sum_img =
     (let mean_img = img_div env sum_img (nframes ops)
      in (if nchannels ops = 1 \<or> functional_chan ops = align_by_chan ops
          then ops\<lparr>meanImg := Some mean_img\<rparr>
          else ops\<lparr>meanImage_chan2 := Some mean_img\<rparr>,
          mean_img))"

text \<open>Lines 127-136, for the batches from number \<open>k\<close> on.\<close>

fun shift_loop :: "('img, 'dat, 'msk, 'z) env \<Rightarrow> ('img, 'z) ops_scheme \<Rightarrow> nat
    \<Rightarrow> ('img \<times> 'dat) list \<Rightarrow> ('img, 'dat, 'z) event list" where
  "shift_loop env ops k [] = []"
| "shift_loop env ops k ((mean_img, dat) # ys) =
     (if reg_tif_chan2 ops
      then [SaveTiff (generate_tiff_filename env (functional_chan ops) (align_by_chan ops)
                        (save_path ops) k False) dat]
      else [])
     @ shift_loop env ops (Suc k) ys"

text \<open>
  Lines 111-125: the call of \<open>apply_shifts_to_binary\<close>. Its arguments are read from
  \<open>ops\<close> in the order written, so the first absent key is the KeyError.
\<close>

definition shift_pass :: "('img, 'dat, 'msk, 'z) env \<Rightarrow> ('img, 'z) prepared
    \<Rightarrow> ('img, 'z) ops_scheme \<Rightarrow> offsets \<Rightarrow> error + (('img \<times> 'dat) list \<times> error option)" where
  "shift_pass env p ops offsets =
     bind_err (lookup ''nblocks'' (nblocks ops)) (\<lambda>nb.
     bind_err (lookup ''xblock'' (xblock ops)) (\<lambda>xb.
     bind_err (lookup ''yblock'' (yblock ops)) (\<lambda>yb.
       Inr (apply_shifts_to_binary env (batch_size ops) (Ly ops) (Lx ops) (nframes ops)
              (nonrigid ops) (bidiphase ops) (bidi_corrected ops) nb xb yb offsets
              (reg_file_alt p) (raw_file_alt p)))))"

text \<open>Lines 139-140.\<close>

definition store_second_mean :: "('img, 'dat, 'msk, 'z) env \<Rightarrow> ('img, 'z) ops_scheme \<Rightarrow> 'img
    \<Rightarrow> nat \<Rightarrow> ('img, 'z) ops_scheme" where
  "store_second_mean env ops mean_img k =
     (let m = img_div env mean_img (int k + 1)
      in if functional_chan ops \<noteq> align_by_chan ops
         then ops\<lparr>meanImag := Some m\<rparr>
         else ops\<lparr>meanImg_chan2 := Some m\<rparr>)"

text \<open>
  Lines 109-140. The loop variables \<open>mean_img\<close> and \<open>k\<close> are those of the function: a
  generator that yields nothing leaves them as lines 82-105 set them.
\<close>

definition second_channel :: "('img, 'dat, 'msk, 'z) env \<Rightarrow> ('img, 'z) prepared
    \<Rightarrow> ('img, 'z) ops_scheme \<Rightarrow> offsets \<Rightarrow> 'img \<Rightarrow> nat
    \<Rightarrow> ('img, 'dat, 'z, ('img, 'z) ops_scheme) run" where
  "second_channel env p ops offsets mean_img0 k0 =
     (if nchannels ops > 1 then
        (case shift_pass env p ops offsets of
           Inl e \<Rightarrow> ([], Inl e)
         | Inr (ys, err) \<Rightarrow>
             (ShiftPass # shift_loop env ops 0 ys,
              case err of
                Some e \<Rightarrow> Inl e
              | None \<Rightarrow>
                  Inr (store_second_mean env ops
                         (if ys = [] then mean_img0 else fst (last ys))
                         (if ys = [] then k0 else length ys - 1))))
      else ([], Inr ops))"

text \<open>Lines 142-151: the history arrays are created when \<open>'yoff'\<close> is not a key.\<close>

definition init_offsets :: "('img, 'z) ops_scheme \<Rightarrow> error + ('img, 'z) ops_scheme" where
  "init_offsets ops =
     (if yoff ops = None then
        bind_err (np_zeros (nframes ops) 0) (\<lambda>z.
          let ops1 = ops\<lparr>yoff := Some z, xoff := Some z, corrXY := Some z\<rparr>
          in if nonrigid ops1 then
               bind_err (lookup ''nblocks'' (nblocks ops1)) (\<lambda>(n0, n1).
               bind_err (np_zeros2 (nframes ops) (n0 * n1)) (\<lambda>z2.
                 Inr (ops1\<lparr>yoff1 := Some z2, xoff1 := Some z2, corrXY1 := Some z2\<rparr>)))
             else Inr ops1)
      else Inr ops)"

text \<open>Lines 153-159.\<close>

definition add_offsets :: "('img, 'z) ops_scheme \<Rightarrow> offsets \<Rightarrow> error + ('img, 'z) ops_scheme" where
  "add_offsets ops offsets =
     bind_err (lookup ''yoff'' (yoff ops)) (\<lambda>a0.
     bind_err (iadd a0 (offsets0 offsets)) (\<lambda>y.
     bind_err (lookup ''xoff'' (xoff ops)) (\<lambda>a1.
     bind_err (iadd a1 (offsets1 offsets)) (\<lambda>x.
     bind_err (lookup ''corrXY'' (corrXY ops)) (\<lambda>a2.
     bind_err (iadd a2 (offsets2 offsets)) (\<lambda>c.
       let ops1 = ops\<lparr>yoff := Some y, xoff := Some x, corrXY := Some c\<rparr>
       in if nonrigid ops1 then
            bind_err (lookup ''yoff1'' (yoff1 ops1)) (\<lambda>a3.
            bind_err (iadd2 a3 (offsets3 offsets)) (\<lambda>y1.
            bind_err (lookup ''xoff1'' (xoff1 ops1)) (\<lambda>a4.
            bind_err (iadd2 a4 (offsets4 offsets)) (\<lambda>x1.
            bind_err (lookup ''corrXY1'' (corrXY1 ops1)) (\<lambda>a5.
            bind_err (iadd2 a5 (offsets5 offsets)) (\<lambda>c1.
              Inr (ops1\<lparr>yoff1 := Some y1, xoff1 := Some x1, corrXY1 := Some c1\<rparr>)))))))
          else Inr ops1))))))"

text \<open>
  Lines 164-167: the override file, when there is a first data path and the file
  \<open>bad_frames.npy\<close> under it exists.
\<close>

definition badfrfile :: "('img, 'dat, 'msk, 'z) env \<Rightarrow> ('img, 'z) ops_scheme \<Rightarrow> string option" where
  "badfrfile env ops =
     (case data_path ops of
        None \<Rightarrow> None
      | Some [] \<Rightarrow> None
      | Some (d # ds) \<Rightarrow>
          (let f = abspath_join env d ''bad_frames.npy''
           in if path_isfile env f then Some f else None))"

text \<open>Lines 163-171.\<close>

definition bad_frames :: "('img, 'dat, 'msk, 'z) env \<Rightarrow> ('img, 'z) ops_scheme
    \<Rightarrow> error + ('img, 'z) ops_scheme" where
  "bad_frames env ops =
     bind_err (np_zeros (nframes ops) False) (\<lambda>z.
       case badfrfile env ops of
         None \<Rightarrow> Inr (ops\<lparr>badframes := Some z\<rparr>)
       | Some f \<Rightarrow>
           (case np_load env f of
              None \<Rightarrow> Inl (OSError f)
            | Some idx \<Rightarrow>
                bind_err (set_true z idx) (\<lambda>bs. Inr (ops\<lparr>badframes := Some bs\<rparr>))))"

text \<open>Lines 173-181.\<close>

definition finish :: "('img, 'dat, 'msk, 'z) env \<Rightarrow> bool \<Rightarrow> ('img, 'z) ops_scheme
    \<Rightarrow> ('img, 'dat, 'z, ('img, 'z) ops_scheme) run" where
  "finish env raw ops0 =
     (let ops1 = compute_crop env ops0;
          ops = (if \<not> raw then ops1\<lparr>bidi_corrected := True\<rparr> else ops1)
      in (case ops_path ops of None \<Rightarrow> [] | Some f \<Rightarrow> [SaveOps f ops], Inr ops))"

text \<open>Lines 104-181, from the state the alignment loop leaves.\<close>

definition complete :: "('img, 'dat, 'msk, 'z) env \<Rightarrow> ('img, 'z) prepared \<Rightarrow> ('img, 'z) aligned
    \<Rightarrow> ('img, 'dat, 'z, ('img, 'z) ops_scheme) run" where
  "complete env p a =
     (case mean_image env (a_ops a) (a_sum_img a) of
        (ops1, mean_img) \<Rightarrow>
          bind_run (second_channel env p ops1 (a_offsets a) mean_img (a_k a)) (\<lambda>ops2.
          bind_run (quiet (init_offsets ops2)) (\<lambda>ops3.
          bind_run (quiet (add_offsets ops3 (a_offsets a))) (\<lambda>ops4.
          bind_run (quiet (bad_frames env ops4)) (\<lambda>ops5.
            finish env (p_raw p) ops5)))))"

text \<open>Lines 42-181: \<open>register_binary\<close> on a dictionary.\<close>

definition register_session :: "('img, 'dat, 'msk, 'z) env \<Rightarrow> ('img, 'z) ops_scheme
    \<Rightarrow> 'img option \<Rightarrow> bool \<Rightarrow> ('img, 'dat, 'z, ('img, 'z) ops_scheme) run" where
  "register_session env ops refImg0 raw0 =
     bind_run (prepare env ops refImg0 raw0) (\<lambda>p.
     bind_run (align env p) (\<lambda>a.
       complete env p a))"

section \<open>register_binary\<close>

text \<open>
  Lines 37-40 and the rest. For a list, every element is registered by
  \<open>register_binary(op)\<close>, that is with \<open>refImg=None\<close> and \<open>raw=True\<close>, and the list
  itself is returned. The dictionaries are updated in place, so the list returned holds
  each element as its registration left it; the model takes that to be the dictionary
  the element's call returns.
\<close>

fun register_binary :: "('img, 'dat, 'msk, 'z) env \<Rightarrow> ('img, 'z) arg \<Rightarrow> 'img option \<Rightarrow> bool
    \<Rightarrow> ('img, 'dat, 'z, ('img, 'z) arg) run"
  and register_each :: "('img, 'dat, 'msk, 'z) env \<Rightarrow> ('img, 'z) arg list
    \<Rightarrow> ('img, 'dat, 'z, ('img, 'z) arg list) run" where
  "register_binary env (Many ops) refImg0 raw0 =
     bind_run (register_each env ops) (\<lambda>ops'. quiet (Inr (Many ops')))"
| "register_binary env (One ops) refImg0 raw0 =
     bind_run (register_session env ops refImg0 raw0) (\<lambda>ops'. quiet (Inr (One ops')))"
| "register_each env [] = quiet (Inr [])"
| "register_each env (op # ops) =
     bind_run (register_binary env op None True) (\<lambda>op'.
     bind_run (register_each env ops) (\<lambda>ops'. quiet (Inr (op' # ops'))))"

text \<open>The dictionary a call returns, when it returns one.\<close>

definition returned :: "('img, 'dat, 'z, ('img, 'z) arg) run \<Rightarrow> ('img, 'z) ops_scheme option" where
  "returned r = (case snd r of Inr (One ops) \<Rightarrow> Some ops | _ \<Rightarrow> None)"

section \<open>A concrete session\<close>

text \<open>
  A small instance of the collaborators, to run the definitions on: images are single
  real numbers, the movie has 50 frames of 16 by 16 pixels (25600 bytes), both passes
  come in two batches of 30 and 20 frames, and every shift is the same number.
\<close>

definition demo_offsets :: "nat \<Rightarrow> real \<Rightarrow> offsets" where
  "demo_offsets n c =
     \<lparr>offsets0 = replicate n c, offsets1 = replicate n (c + 1), offsets2 = replicate n (c + 2),
      offsets3 = Arr2 6 (replicate n (replicate 6 c)),
      offsets4 = Arr2 6 (replicate n (replicate 6 (c + 1))),
      offsets5 = Arr2 6 (replicate n (replicate 6 (c + 2)))\<rparr>"

definition demo_env :: "(real, nat, unit, unit) env" where
  "demo_env =
     \<lparr>make_blocks = (\<lambda>ops. Inr (ops\<lparr>nblocks := Some (2, 3), xblock := Some [0, 8],
                                       yblock := Some [0, 8]\<rparr>)),
      getsize = (\<lambda>f. if f = ''data.bin'' \<or> f = ''raw.bin'' then Some 25600 else None),
      path_exists = (\<lambda>f. f = ''data.bin'' \<or> f = ''raw.bin''),
      path_isfile = (\<lambda>f. f = ''data.bin'' \<or> f = ''raw.bin'' \<or> f = ''d/bad_frames.npy''),
      abspath_join = (\<lambda>d f. d @ ''/'' @ f),
      np_load = (\<lambda>f. if f = ''d/bad_frames.npy'' then Some [3, 7] else None),
      img_div = (\<lambda>x n. x / real_of_int n),
      bin_paths = (\<lambda>ops raw. (Some (reg_file ops), Some ''chan2.bin'',
                              if raw then raw_file ops else None, None)),
      compute_reference_image = (\<lambda>ops f. Inr (1, 2)),
      prepare_refAndMasks = (\<lambda>img ops. ()),
      register_binary_to_ref = (\<lambda>nbatch ly lx n ops msk f g.
        ([(ops, demo_offsets 30 1, 300, 0, 30), (ops, demo_offsets (nat n) 1, 500, 1, n)],
         None)),
      apply_shifts_to_binary = (\<lambda>nbatch ly lx n nr bd bc nb xb yb off f g.
        ([(30, 0), (80, 1)], None)),
      generate_tiff_filename = (\<lambda>fc ac sp k ichan. sp @ (if ichan then ''/a'' else ''/b'')),
      compute_crop = (\<lambda>ops. ops)\<rparr>"

definition demo_ops :: "real ops" where
  "demo_ops =
     \<lparr>Ly = 16, Lx = 16, batch_size = 30, nframes = 0, frames_include = - 1,
      nonrigid = False, nchannels = 1, functional_chan = 1, align_by_chan = 1,
      reg_tif = False, reg_tif_chan2 = False, save_path = ''out'', reg_file = ''data.bin'',
      bidiphase = 0, bidi_corrected = False, keep_movie_raw = None, raw_file = None,
      data_path = None, ops_path = None, nblocks = None, xblock = None, yblock = None,
      refImg = None, meanImg = None, meanImage_chan2 = None, meanImag = None,
      meanImg_chan2 = None, yoff = None, xoff = None, corrXY = None, yoff1 = None,
      xoff1 = None, corrXY1 = None, badframes = None\<rparr>"

text \<open>The same movie with two channels, block-wise shifts and a bad-frame file.\<close>

definition demo_ops2 :: "real ops" where
  "demo_ops2 = demo_ops\<lparr>nonrigid := True, nchannels := 2, functional_chan := 2,
                         data_path := Some [''d'']\<rparr>"

text \<open>
  The same collaborators, with a \<open>compute_crop\<close> that also marks the first frame
  as bad.
\<close>

definition demo_env_crop :: "(real, nat, unit, unit) env" where
  "demo_env_crop =
     demo_env\<lparr>compute_crop :=
       (\<lambda>ops. ops\<lparr>badframes := map_option (\<lambda>bs. bs[0 := True]) (badframes ops)\<rparr>)\<rparr>"

text \<open>What lines 42-76 and the alignment loop make of it.\<close>

definition demo_prepared2 :: "(real, unit) prepared" where
  "demo_prepared2 =
     \<lparr>p_ops = demo_ops2\<lparr>nframes := 50, bidiphase := 2, nblocks := Some (2, 3),
        xblock := Some [0, 8], yblock := Some [0, 8], refImg := Some 1\<rparr>,
      p_raw = False, p_refImg = 1, reg_file_align = Some ''data.bin'',
      reg_file_alt = Some ''chan2.bin'', raw_file_align = None, raw_file_alt = None\<rparr>"

definition demo_aligned2 :: "(real, unit) aligned" where
  "demo_aligned2 =
     \<lparr>a_ops = p_ops demo_prepared2, a_offsets = demo_offsets 50 1, a_sum_img = 500,
      a_k = 1\<rparr>"

section \<open>Sequencing lemmas\<close>

lemma bind_err_Inr:
  "bind_err m f = Inr y \<longleftrightarrow> (\<exists>x. m = Inr x \<and> f x = Inr y)"
  by (cases m) (simp_all add: bind_err_def)

lemma lookup_Inr: "lookup key v = Inr x \<longleftrightarrow> v = Some x"
  by (cases v) (simp_all add: lookup_def)

lemma bind_run_Inr:
  "bind_run m f = (l, Inr y) \<longleftrightarrow>
     (\<exists>l1 x l2. m = (l1, Inr x) \<and> f x = (l2, Inr y) \<and> l = l1 @ l2)"
proof (cases m)
  case (Pair l1 r)
  show ?thesis
  proof (cases r)
    case (Inl e)
    with Pair show ?thesis by (simp add: bind_run_def)
  next
    case (Inr x)
    with Pair show ?thesis
      by (cases "f x") (auto simp add: bind_run_def)
  qed
qed

lemma quiet_eq: "quiet r = (l, r') \<longleftrightarrow> l = [] \<and> r' = r"
  by (auto simp add: quiet_def)

section \<open>What a successful phase has done\<close>

lemma bind_quiet_Inr:
  "bind_run (quiet m) f = (l, Inr y) \<longleftrightarrow> (\<exists>x. m = Inr x \<and> f x = (l, Inr y))"
  by (cases m) (auto simp add: bind_run_def quiet_def split: prod.splits)

lemma session_split:
  assumes run: "register_binary env (One ops) refImg0 raw0 = (l, Inr (One ops'))"
    and prep: "prepare env ops refImg0 raw0 = (l1, Inr p)"
    and algn: "align env p = (l2, Inr a)"
  shows "\<exists>l3. complete env p a = (l3, Inr ops') \<and> l = l1 @ l2 @ l3"
proof -
  from run obtain ls where s: "register_session env ops refImg0 raw0 = (ls, Inr ops')" and "l = ls"
    by (auto simp add: bind_run_Inr quiet_eq)
  from s prep algn show ?thesis
    unfolding register_session_def \<open>l = ls\<close> by (auto simp add: bind_run_Inr)
qed

lemma second_channel_Inr:
  assumes "second_channel env p ops offs m0 k0 = (l, Inr ops2)"
  shows "(\<not> nchannels ops > 1 \<and> ops2 = ops \<and> l = []) \<or>
         (nchannels ops > 1 \<and>
          (\<exists>ys. shift_pass env p ops offs = Inr (ys, None) \<and>
                l = ShiftPass # shift_loop env ops 0 ys \<and>
                ops2 = store_second_mean env ops (if ys = [] then m0 else fst (last ys))
                         (if ys = [] then k0 else length ys - 1)))"
proof (cases "nchannels ops > 1")
  case False
  with assms show ?thesis by (simp add: second_channel_def)
next
  case True
  show ?thesis
  proof (cases "shift_pass env p ops offs")
    case (Inl e)
    with assms True show ?thesis by (simp add: second_channel_def)
  next
    case (Inr r)
    obtain ys err where r: "r = (ys, err)" by (cases r)
    show ?thesis
    proof (cases err)
      case None
      with assms True Inr r show ?thesis by (simp add: second_channel_def)
    next
      case (Some e)
      with assms True Inr r show ?thesis by (simp add: second_channel_def)
    qed
  qed
qed

lemma finish_Inr:
  assumes "finish env raw ops5 = (l, Inr ops')"
  shows "ops' = (if \<not> raw then (compute_crop env ops5)\<lparr>bidi_corrected := True\<rparr>
                 else compute_crop env ops5)"
  using assms by (simp add: finish_def Let_def)

lemma complete_Inr:
  assumes "complete env p a = (l, Inr ops')"
  shows "\<exists>ops1 mean_img la ops2 ops3 ops4 ops5 lb.
           mean_image env (a_ops a) (a_sum_img a) = (ops1, mean_img) \<and>
           second_channel env p ops1 (a_offsets a) mean_img (a_k a) = (la, Inr ops2) \<and>
           init_offsets ops2 = Inr ops3 \<and>
           add_offsets ops3 (a_offsets a) = Inr ops4 \<and>
           bad_frames env ops4 = Inr ops5 \<and>
           finish env (p_raw p) ops5 = (lb, Inr ops') \<and> l = la @ lb"
proof -
  obtain ops1 mean_img where m: "mean_image env (a_ops a) (a_sum_img a) = (ops1, mean_img)"
    by (cases "mean_image env (a_ops a) (a_sum_img a)")
  from assms m have "bind_run (second_channel env p ops1 (a_offsets a) mean_img (a_k a)) (\<lambda>ops2.
          bind_run (quiet (init_offsets ops2)) (\<lambda>ops3.
          bind_run (quiet (add_offsets ops3 (a_offsets a))) (\<lambda>ops4.
          bind_run (quiet (bad_frames env ops4)) (\<lambda>ops5.
            finish env (p_raw p) ops5)))) = (l, Inr ops')"
    by (simp add: complete_def)
  then obtain la ops2 lb where
    sc: "second_channel env p ops1 (a_offsets a) mean_img (a_k a) = (la, Inr ops2)" and
    r: "bind_run (quiet (init_offsets ops2)) (\<lambda>ops3.
          bind_run (quiet (add_offsets ops3 (a_offsets a))) (\<lambda>ops4.
          bind_run (quiet (bad_frames env ops4)) (\<lambda>ops5.
            finish env (p_raw p) ops5))) = (lb, Inr ops')" and
    l: "l = la @ lb"
    unfolding bind_run_Inr [of "second_channel env p ops1 (a_offsets a) mean_img (a_k a)"]
    by blast
  from r obtain ops3 ops4 ops5 where
    "init_offsets ops2 = Inr ops3" "add_offsets ops3 (a_offsets a) = Inr ops4"
    "bad_frames env ops4 = Inr ops5" "finish env (p_raw p) ops5 = (lb, Inr ops')"
    by (simp add: bind_quiet_Inr) blast
  with m sc l show ?thesis by blast
qed

lemma init_offsets_Inr:
  assumes "init_offsets ops = Inr ops3"
  shows "(yoff ops \<noteq> None \<and> ops3 = ops) \<or>
         (yoff ops = None \<and> 0 \<le> nframes ops \<and> \<not> nonrigid ops \<and>
          ops3 = ops\<lparr>yoff := Some (replicate (nat (nframes ops)) 0),
                      xoff := Some (replicate (nat (nframes ops)) 0),
                      corrXY := Some (replicate (nat (nframes ops)) 0)\<rparr>) \<or>
         (yoff ops = None \<and> 0 \<le> nframes ops \<and> nonrigid ops \<and>
          (\<exists>z2 n0 n1. nblocks ops = Some (n0, n1) \<and> np_zeros2 (nframes ops) (n0 * n1) = Inr z2 \<and>
             ops3 = ops\<lparr>yoff := Some (replicate (nat (nframes ops)) 0),
                      xoff := Some (replicate (nat (nframes ops)) 0),
                      corrXY := Some (replicate (nat (nframes ops)) 0),
                      yoff1 := Some z2, xoff1 := Some z2, corrXY1 := Some z2\<rparr>))"
proof (cases "yoff ops = None")
  case False
  with assms show ?thesis by (simp add: init_offsets_def)
next
  case True
  show ?thesis
  proof (cases "nframes ops < 0")
    case neg: True
    with assms True show ?thesis by (simp add: init_offsets_def np_zeros_def bind_err_def)
  next
    case pos: False
    show ?thesis
    proof (cases "nonrigid ops")
      case False
      with assms True pos show ?thesis
        by (simp add: init_offsets_def np_zeros_def bind_err_def Let_def)
    next
      case nr: True
      show ?thesis
      proof (cases "nblocks ops")
        case None
        with assms True pos nr show ?thesis
          by (simp add: init_offsets_def np_zeros_def bind_err_def Let_def lookup_def)
      next
        case (Some nb)
        obtain n0 n1 where nb: "nb = (n0, n1)" by (cases nb)
        show ?thesis
        proof (cases "np_zeros2 (nframes ops) (n0 * n1)")
          case (Inl e)
          with assms True pos nr Some nb show ?thesis
            by (simp add: init_offsets_def np_zeros_def bind_err_def Let_def lookup_def)
        next
          case (Inr z2)
          with assms True pos nr Some nb show ?thesis
            by (simp add: init_offsets_def np_zeros_def bind_err_def Let_def lookup_def)
        qed
      qed
    qed
  qed
qed

lemma add_offsets_Inr:
  assumes "add_offsets ops offs = Inr ops4"
  shows "\<exists>a0 a1 a2 y x c. yoff ops = Some a0 \<and> xoff ops = Some a1 \<and> corrXY ops = Some a2 \<and>
           iadd a0 (offsets0 offs) = Inr y \<and> iadd a1 (offsets1 offs) = Inr x \<and>
           iadd a2 (offsets2 offs) = Inr c \<and>
           ((\<not> nonrigid ops \<and> ops4 = ops\<lparr>yoff := Some y, xoff := Some x, corrXY := Some c\<rparr>) \<or>
            (nonrigid ops \<and>
              (\<exists>a3 a4 a5 y1 x1 c1. yoff1 ops = Some a3 \<and> xoff1 ops = Some a4 \<and> corrXY1 ops = Some a5 \<and>
                 iadd2 a3 (offsets3 offs) = Inr y1 \<and> iadd2 a4 (offsets4 offs) = Inr x1 \<and>
                 iadd2 a5 (offsets5 offs) = Inr c1 \<and>
                 ops4 = ops\<lparr>yoff := Some y, xoff := Some x, corrXY := Some c,
                            yoff1 := Some y1, xoff1 := Some x1, corrXY1 := Some c1\<rparr>)))"
proof -
  from assms obtain a0 y a1 x a2 c where
    a: "yoff ops = Some a0" "iadd a0 (offsets0 offs) = Inr y"
       "xoff ops = Some a1" "iadd a1 (offsets1 offs) = Inr x"
       "corrXY ops = Some a2" "iadd a2 (offsets2 offs) = Inr c" and
    rest: "(let ops1 = ops\<lparr>yoff := Some y, xoff := Some x, corrXY := Some c\<rparr>
       in if nonrigid ops1 then
            bind_err (lookup ''yoff1'' (yoff1 ops1)) (\<lambda>a3.
            bind_err (iadd2 a3 (offsets3 offs)) (\<lambda>y1.
            bind_err (lookup ''xoff1'' (xoff1 ops1)) (\<lambda>a4.
            bind_err (iadd2 a4 (offsets4 offs)) (\<lambda>x1.
            bind_err (lookup ''corrXY1'' (corrXY1 ops1)) (\<lambda>a5.
            bind_err (iadd2 a5 (offsets5 offs)) (\<lambda>c1.
              Inr (ops1\<lparr>yoff1 := Some y1, xoff1 := Some x1, corrXY1 := Some c1\<rparr>)))))))
          else Inr ops1) = Inr ops4"
    unfolding add_offsets_def bind_err_Inr lookup_Inr by blast
  show ?thesis
  proof (cases "nonrigid ops")
    case False
    with rest have "ops4 = ops\<lparr>yoff := Some y, xoff := Some x, corrXY := Some c\<rparr>"
      by (simp add: Let_def)
    with a False show ?thesis by simp
  next
    case True
    with rest obtain a3 y1 a4 x1 a5 c1 where
      b: "yoff1 ops = Some a3" "iadd2 a3 (offsets3 offs) = Inr y1"
         "xoff1 ops = Some a4" "iadd2 a4 (offsets4 offs) = Inr x1"
         "corrXY1 ops = Some a5" "iadd2 a5 (offsets5 offs) = Inr c1" and
      o: "ops4 = ops\<lparr>yoff := Some y, xoff := Some x, corrXY := Some c,
                            yoff1 := Some y1, xoff1 := Some x1, corrXY1 := Some c1\<rparr>"
      by (simp add: Let_def bind_err_Inr lookup_Inr) blast
    with a True show ?thesis by simp
  qed
qed

lemma bad_frames_Inr:
  assumes "bad_frames env ops = Inr ops5"
  shows "\<exists>bs. ops5 = ops\<lparr>badframes := Some bs\<rparr> \<and> 0 \<le> nframes ops \<and>
           (case badfrfile env ops of
              None \<Rightarrow> bs = replicate (nat (nframes ops)) False
            | Some f \<Rightarrow> (\<exists>idx. np_load env f = Some idx \<and>
                           set_true (replicate (nat (nframes ops)) False) idx = Inr bs))"
proof (cases "nframes ops < 0")
  case True
  with assms show ?thesis by (simp add: bad_frames_def np_zeros_def bind_err_def)
next
  case pos: False
  show ?thesis
  proof (cases "badfrfile env ops")
    case None
    with assms pos show ?thesis
      by (auto simp add: bad_frames_def np_zeros_def bind_err_def)
  next
    case (Some f)
    show ?thesis
    proof (cases "np_load env f")
      case None
      with assms pos Some show ?thesis
        by (simp add: bad_frames_def np_zeros_def bind_err_def)
    next
      case idx: (Some idx)
      with assms pos Some show ?thesis
        by (cases "set_true (replicate (nat (nframes ops)) False) idx")
           (auto simp add: bad_frames_def np_zeros_def bind_err_def)
    qed
  qed
qed

section \<open>What a phase leaves alone\<close>

lemma session_steps:
  assumes "register_binary env (One ops) refImg0 raw0 = (l, Inr (One ops'))"
  shows "\<exists>l1 p l2 a l3. prepare env ops refImg0 raw0 = (l1, Inr p) \<and>
           align env p = (l2, Inr a) \<and> complete env p a = (l3, Inr ops') \<and> l = l1 @ l2 @ l3"
proof -
  from assms have "register_session env ops refImg0 raw0 = (l, Inr ops')"
    by (auto simp add: bind_run_Inr quiet_eq)
  then show ?thesis
    unfolding register_session_def by (auto simp add: bind_run_Inr)
qed

lemma init_offsets_frame:
  assumes "init_offsets ops = Inr ops3"
    and "\<And>r v. F (r\<lparr>yoff := v\<rparr>) = F r" and "\<And>r v. F (r\<lparr>xoff := v\<rparr>) = F r"
    and "\<And>r v. F (r\<lparr>corrXY := v\<rparr>) = F r" and "\<And>r v. F (r\<lparr>yoff1 := v\<rparr>) = F r"
    and "\<And>r v. F (r\<lparr>xoff1 := v\<rparr>) = F r" and "\<And>r v. F (r\<lparr>corrXY1 := v\<rparr>) = F r"
  shows "F ops3 = F ops"
  using init_offsets_Inr [OF assms(1)] assms(2-) by (elim disjE conjE exE) simp_all

lemma add_offsets_frame:
  assumes "add_offsets ops offs = Inr ops4"
    and "\<And>r v. F (r\<lparr>yoff := v\<rparr>) = F r" and "\<And>r v. F (r\<lparr>xoff := v\<rparr>) = F r"
    and "\<And>r v. F (r\<lparr>corrXY := v\<rparr>) = F r" and "\<And>r v. F (r\<lparr>yoff1 := v\<rparr>) = F r"
    and "\<And>r v. F (r\<lparr>xoff1 := v\<rparr>) = F r" and "\<And>r v. F (r\<lparr>corrXY1 := v\<rparr>) = F r"
  shows "F ops4 = F ops"
  using add_offsets_Inr [OF assms(1)] assms(2-) by (elim disjE conjE exE) simp_all

lemma bad_frames_frame:
  assumes "bad_frames env ops = Inr ops5"
    and "\<And>r v. F (r\<lparr>badframes := v\<rparr>) = F r"
  shows "F ops5 = F ops"
  using bad_frames_Inr [OF assms(1)] assms(2) by (elim conjE exE) simp

lemma finish_frame:
  assumes "finish env raw ops5 = (l, Inr ops')"
    and "\<And>r v. F (r\<lparr>bidi_corrected := v\<rparr>) = F r"
    and "\<And>r. F (compute_crop env r) = F r"
  shows "F ops' = F ops5"
  using finish_Inr [OF assms(1)] assms(2-) by (simp split: if_splits)

lemma second_channel_frame:
  assumes "second_channel env p ops offs m0 k0 = (l, Inr ops2)"
    and "\<And>r v. F (r\<lparr>meanImag := v\<rparr>) = F r"
    and "\<And>r v. F (r\<lparr>meanImg_chan2 := v\<rparr>) = F r"
  shows "F ops2 = F ops"
  using second_channel_Inr [OF assms(1)] assms(2-)
  by (elim disjE conjE exE) (simp_all add: store_second_mean_def Let_def)

lemma mean_image_frame:
  assumes "mean_image env ops sum_img = (ops1, m)"
    and "\<And>r v. F (r\<lparr>meanImg := v\<rparr>) = F r"
    and "\<And>r v. F (r\<lparr>meanImage_chan2 := v\<rparr>) = F r"
  shows "F ops1 = F ops"
  using assms by (auto simp add: mean_image_def Let_def split: if_splits)

lemma tail_frame:
  assumes "init_offsets ops2 = Inr ops3" and "add_offsets ops3 offs = Inr ops4"
    and "bad_frames env ops4 = Inr ops5" and "finish env raw ops5 = (lb, Inr ops')"
    and "\<And>r v. F (r\<lparr>yoff := v\<rparr>) = F r" and "\<And>r v. F (r\<lparr>xoff := v\<rparr>) = F r"
    and "\<And>r v. F (r\<lparr>corrXY := v\<rparr>) = F r" and "\<And>r v. F (r\<lparr>yoff1 := v\<rparr>) = F r"
    and "\<And>r v. F (r\<lparr>xoff1 := v\<rparr>) = F r" and "\<And>r v. F (r\<lparr>corrXY1 := v\<rparr>) = F r"
    and "\<And>r v. F (r\<lparr>badframes := v\<rparr>) = F r"
    and "\<And>r v. F (r\<lparr>bidi_corrected := v\<rparr>) = F r"
    and "\<And>r. F (compute_crop env r) = F r"
  shows "F ops' = F ops2"
proof -
  have "F ops3 = F ops2" by (rule init_offsets_frame [OF assms(1)]) (rule assms)+
  moreover have "F ops4 = F ops3" by (rule add_offsets_frame [OF assms(2)]) (rule assms)+
  moreover have "F ops5 = F ops4" by (rule bad_frames_frame [OF assms(3)]) (rule assms)+
  moreover have "F ops' = F ops5" by (rule finish_frame [OF assms(4)]) (rule assms)+
  ultimately show ?thesis by simp
qed

lemma resolve_nframes_Inr:
  assumes "resolve_nframes env r = Inr r'"
  shows "\<exists>n. r' = r\<lparr>nframes := n\<rparr>"
proof (cases "frames_include r \<noteq> - 1")
  case True
  with assms show ?thesis by (auto simp add: resolve_nframes_def)
next
  case False
  with assms show ?thesis
    by (auto simp add: resolve_nframes_def bind_err_Inr split: option.splits)
qed

lemma prepare_given:
  assumes "prepare env ops (Some img) raw0 = (l1, Inr p)"
  shows "l1 = [] \<and>
         (\<exists>ops1 n. (if nonrigid ops then make_blocks env ops else Inr ops) = Inr ops1 \<and>
            p_ops p = ops1\<lparr>nframes := n, refImg := Some img\<rparr> \<and> p_refImg p = img)"
proof -
  from assms have "l1 = [] \<and>
      (\<exists>ops1 ops2. (if nonrigid ops then make_blocks env ops else Inr ops) = Inr ops1 \<and>
         resolve_nframes env ops1 = Inr ops2 \<and>
         p_ops p = ops2\<lparr>refImg := Some img\<rparr> \<and> p_refImg p = img)"
    by (simp add: prepare_def bind_quiet_Inr)
       (auto simp add: quiet_def bind_run_def Let_def split: if_splits prod.splits)
  then obtain ops1 ops2 where
    l: "l1 = []" and
    b: "(if nonrigid ops then make_blocks env ops else Inr ops) = Inr ops1" and
    r: "resolve_nframes env ops1 = Inr ops2" and
    q: "p_ops p = ops2\<lparr>refImg := Some img\<rparr>" "p_refImg p = img"
    by blast
  from resolve_nframes_Inr [OF r] obtain n where n: "ops2 = ops1\<lparr>nframes := n\<rparr>" ..
  with l b q show ?thesis by auto
qed

section \<open>The event log\<close>

lemma bind_run_log:
  assumes "ev \<in> set (fst (bind_run m f))"
  shows "ev \<in> set (fst m) \<or> (\<exists>x. ev \<in> set (fst (f x)))"
proof (cases m)
  case (Pair l r)
  show ?thesis
  proof (cases r)
    case (Inl e)
    with Pair assms show ?thesis by (simp add: bind_run_def)
  next
    case (Inr x)
    with Pair assms have "ev \<in> set l \<or> ev \<in> set (fst (f x))"
      by (cases "f x") (auto simp add: bind_run_def)
    with Pair show ?thesis by auto
  qed
qed

lemma align_loop_log: "ReferenceBuilt f \<notin> set (align_loop env k ys)"
  by (induction env k ys rule: align_loop.induct) simp_all

lemma shift_loop_log: "ReferenceBuilt f \<notin> set (shift_loop env ops k ys)"
  by (induction env ops k ys rule: shift_loop.induct) simp_all

lemma align_log: "ReferenceBuilt f \<notin> set (fst (align env p))"
  by (simp add: align_def Let_def align_loop_log split: prod.splits)

lemma second_channel_log:
  "ReferenceBuilt f \<notin> set (fst (second_channel env p ops offs m0 k0))"
  by (simp add: second_channel_def shift_loop_log split: sum.splits prod.splits)

lemma finish_log: "ReferenceBuilt f \<notin> set (fst (finish env raw ops))"
  by (simp add: finish_def Let_def split: option.splits)

lemma complete_log: "ReferenceBuilt f \<notin> set (fst (complete env p a))"
proof
  assume a: "ReferenceBuilt f \<in> set (fst (complete env p a))"
  obtain ops1 mean_img where m: "mean_image env (a_ops a) (a_sum_img a) = (ops1, mean_img)"
    by (cases "mean_image env (a_ops a) (a_sum_img a)")
  from a m show False
    by (auto simp add: complete_def quiet_def second_channel_log finish_log
        dest!: bind_run_log)
qed

lemma prepare_given_log: "fst (prepare env ops (Some img) raw0) = []"
proof -
  have q: "\<And>r g. fst (bind_run ([], r) g)
      = (case r of Inl e \<Rightarrow> [] | Inr x \<Rightarrow> fst (g x))"
    by (auto simp add: bind_run_def split: sum.splits prod.splits)
  show ?thesis
    by (simp add: prepare_def q Let_def quiet_def split: sum.splits prod.splits)
qed

lemma session_given_log:
  "ReferenceBuilt f \<notin> set (fst (register_session env ops (Some img) raw0))"
proof
  assume "ReferenceBuilt f \<in> set (fst (register_session env ops (Some img) raw0))"
  then show False
    by (auto simp add: register_session_def prepare_given_log align_log complete_log
        dest!: bind_run_log)
qed

lemma align_Inr:
  assumes "align env p = (l2, Inr a)"
  shows "\<exists>ys. register_binary_to_ref env (batch_size (p_ops p)) (Ly (p_ops p)) (Lx (p_ops p))
           (nframes (p_ops p)) (p_ops p) (prepare_refAndMasks env (p_refImg p) (p_ops p))
           (reg_file_align p) (raw_file_align p) = (ys, None) \<and> ys \<noteq> [] \<and>
           a_ops a = fst (last ys) \<and> a_offsets a = fst (snd (last ys)) \<and>
           a_sum_img a = fst (snd (snd (last ys))) \<and> a_k a = length ys - 1 \<and>
           l2 = AlignmentPass # align_loop env 0 ys"
  using assms
  by (auto simp add: align_def Let_def split: prod.splits option.splits if_splits)

lemma shift_pass_mean:
  assumes "mean_image env ops sum_img = (ops1, m)"
  shows "shift_pass env p ops1 offs = shift_pass env p ops offs"
  using assms by (auto simp add: mean_image_def shift_pass_def Let_def split: if_splits)

lemma mean_image_chans:
  assumes "mean_image env ops sum_img = (ops1, m)"
  shows "nchannels ops1 = nchannels ops \<and> functional_chan ops1 = functional_chan ops \<and>
         align_by_chan ops1 = align_by_chan ops"
  using assms by (auto simp add: mean_image_def Let_def split: if_splits)

lemma set_true_Inr:
  "set_true bs idx = Inr bs' \<Longrightarrow>
     length bs' = length bs \<and>
     (\<forall>j<length bs. bs' ! j \<longleftrightarrow>
        bs ! j \<or> (\<exists>i\<in>set idx. (if i < 0 then int (length bs) + i else i) = int j))"
proof (induction idx arbitrary: bs)
  case Nil
  then show ?case by simp
next
  case (Cons i idx)
  define k where "k = (if i < 0 then int (length bs) + i else i)"
  from Cons.prems have rng: "0 \<le> k" "k < int (length bs)"
    and rec: "set_true (bs[nat k := True]) idx = Inr bs'"
    by (auto simp add: k_def Let_def split: if_splits)
  from Cons.IH [OF rec] have
    len: "length bs' = length bs" and
    at: "\<forall>j<length bs. bs' ! j \<longleftrightarrow>
        (bs[nat k := True]) ! j \<or>
        (\<exists>i\<in>set idx. (if i < 0 then int (length bs) + i else i) = int j)"
    by simp_all
  show ?case
  proof (intro conjI allI impI)
    show "length bs' = length bs" by (rule len)
  next
    fix j assume j: "j < length bs"
    have "(bs[nat k := True]) ! j \<longleftrightarrow> bs ! j \<or> k = int j"
      using j rng by (auto simp add: nth_list_update)
    with at j show "bs' ! j \<longleftrightarrow>
        bs ! j \<or> (\<exists>i\<in>set (i # idx). (if i < 0 then int (length bs) + i else i) = int j)"
      by (auto simp add: k_def)
  qed
qed

lemma badfrfile_cong:
  "data_path r = data_path r' \<Longrightarrow> badfrfile env r = badfrfile env r'"
  by (simp add: badfrfile_def)

section \<open>Adding the shifts of a pass\<close>

lemma prepare_nframes:
  assumes "prepare env ops refImg0 raw0 = (l1, Inr p)"
  shows "50 \<le> nframes (p_ops p)"
proof -
  from assms have "\<exists>ops2. (if nframes ops2 < 50 then quiet (Inl FrameCountError)
       else
         let raw = resolve_raw env ops2 raw0 in
         case bin_paths env ops2 raw of
           (rga, rgb, rwa, rwb) \<Rightarrow>
             bind_run
               (case refImg0 of
                  Some img \<Rightarrow> quiet (Inr (img, ops2))
                | None \<Rightarrow>
                    (let f = (if raw then rwa else rga)
                     in ([ReferenceBuilt f],
                         bind_err (compute_reference_image env ops2 f)
                           (\<lambda>(img, bidi). Inr (img, ops2\<lparr>bidiphase := bidi\<rparr>)))))
               (\<lambda>(img, ops').
                  quiet (Inr \<lparr>p_ops = ops'\<lparr>refImg := Some img\<rparr>, p_raw = raw, p_refImg = img,
                               reg_file_align = rga, reg_file_alt = rgb,
                               raw_file_align = rwa, raw_file_alt = rwb\<rparr>))) = (l1, Inr p)"
    unfolding prepare_def bind_quiet_Inr by (elim exE conjE) (rule exI)
  then obtain ops2 where
    r: "(if nframes ops2 < 50 then quiet (Inl FrameCountError)
       else
         let raw = resolve_raw env ops2 raw0 in
         case bin_paths env ops2 raw of
           (rga, rgb, rwa, rwb) \<Rightarrow>
             bind_run
               (case refImg0 of
                  Some img \<Rightarrow> quiet (Inr (img, ops2))
                | None \<Rightarrow>
                    (let f = (if raw then rwa else rga)
                     in ([ReferenceBuilt f],
                         bind_err (compute_reference_image env ops2 f)
                           (\<lambda>(img, bidi). Inr (img, ops2\<lparr>bidiphase := bidi\<rparr>)))))
               (\<lambda>(img, ops').
                  quiet (Inr \<lparr>p_ops = ops'\<lparr>refImg := Some img\<rparr>, p_raw = raw, p_refImg = img,
                               reg_file_align = rga, reg_file_alt = rgb,
                               raw_file_align = rwa, raw_file_alt = rwb\<rparr>))) = (l1, Inr p)" ..
  show ?thesis
  proof (cases "nframes ops2 < 50")
    case True
    with r show ?thesis by (simp add: quiet_def)
  next
    case False
    with r have "nframes (p_ops p) = nframes ops2"
      by (cases refImg0)
         (auto simp add: Let_def bind_run_Inr quiet_def bind_err_Inr split: prod.splits)
    with False show ?thesis by simp
  qed
qed

lemma iadd_history:
  assumes "iadd a b = Inr y" and "length b = n" and "1 < n"
  shows "length a = n \<and> length y = n \<and> (\<forall>i<n. y ! i = a ! i + b ! i)"
proof -
  from assms have la: "length a = n"
    by (auto simp add: iadd_def split: if_splits)
  with assms have "y = map2 (+) a b" by (simp add: iadd_def)
  with la assms(2) show ?thesis by simp
qed

lemma map2_add_zeros: "map2 (+) (replicate (length b) (0::real)) b = b"
  by (induction b) simp_all

lemma iadd_zeros:
  assumes "iadd (replicate n 0) b = Inr y" and "length b = n"
  shows "y = b"
  using assms map2_add_zeros [of b] by (simp add: iadd_def)

lemma iadd2_history:
  assumes "iadd2 a b = Inr y" and "length (rows b) = n" and "1 < n"
  shows "length (rows a) = n \<and> length (rows y) = n \<and>
         (\<forall>i<n. rows y ! i = iadd_row (rows a ! i) (rows b ! i))"
proof -
  from assms have la: "length (rows a) = n"
    by (auto simp add: iadd2_def split: if_splits)
  with assms have "y = Arr2 (ncols a) (map2 iadd_row (rows a) (rows b))"
    by (auto simp add: iadd2_def split: if_splits)
  with la assms(2) show ?thesis by simp
qed

lemma map2_replicate_left:
  "length ss = n \<Longrightarrow> map2 f (replicate n r) ss = map (f r) ss"
  by (induction ss arbitrary: n) auto

lemma iadd_row_zeros: "length s = nb \<Longrightarrow> iadd_row (replicate nb 0) s = s"
  using map2_add_zeros [of s] by (auto simp add: iadd_row_def)

lemma iadd2_zeros:
  assumes "iadd2 (Arr2 nb (replicate n (replicate nb 0))) b = Inr y"
    and "length (rows b) = n" and "ncols b = nb"
  shows "y = b"
proof -
  from assms have wf: "wf_arr2 b"
    by (auto simp add: iadd2_def split: if_splits)
  from assms wf have y: "y = Arr2 nb (map2 iadd_row (replicate n (replicate nb 0)) (rows b))"
    by (auto simp add: iadd2_def split: if_splits)
  have "map2 iadd_row (replicate n (replicate nb 0)) (rows b)
      = map (iadd_row (replicate nb 0)) (rows b)"
    by (rule map2_replicate_left) (rule assms(2))
  also have "\<dots> = map (\<lambda>s. s) (rows b)"
  proof (rule map_cong [OF refl])
    fix s assume "s \<in> set (rows b)"
    with wf assms(3) have "length s = nb" by (auto simp add: wf_arr2_def list_all_iff)
    then show "iadd_row (replicate nb 0) s = s" by (rule iadd_row_zeros)
  qed
  finally have "map2 iadd_row (replicate n (replicate nb 0)) (rows b) = rows b" by simp
  with y assms(3) show ?thesis by (cases b) simp
qed

lemmas demo_defs = demo_env_def demo_ops_def demo_ops2_def demo_offsets_def

lemmas phase_defs = register_session_def prepare_def bind_run_def quiet_def
  resolve_nframes_def measured_file_def bind_err_def int_truediv_def resolve_raw_def
  align_def complete_def mean_image_def second_channel_def shift_pass_def
  store_second_mean_def init_offsets_def add_offsets_def np_zeros_def np_zeros2_def
  lookup_def iadd_def iadd2_def iadd_row_def wf_arr2_def bad_frames_def badfrfile_def
  finish_def returned_def

lemma list_all_replicate: "list_all P (replicate n x) \<longleftrightarrow> n = 0 \<or> P x"
  by (induction n) auto

text \<open>The concrete session, single channel and rigid, registers.\<close>

lemma demo_run:
  "register_binary demo_env (One demo_ops) None True =
     ([ReferenceBuilt (Some ''data.bin''), AlignmentPass],
      Inr (One (demo_ops\<lparr>nframes := 50, bidiphase := 2, bidi_corrected := True,
         refImg := Some 1, meanImg := Some 10, yoff := Some (replicate 50 1),
         xoff := Some (replicate 50 2), corrXY := Some (replicate 50 3),
         badframes := Some (replicate 50 False)\<rparr>)))"
  by (simp add: demo_defs phase_defs)

text \<open>So does the one with two channels and blocks.\<close>

lemma demo2_prepare:
  "prepare demo_env demo_ops2 None True
     = ([ReferenceBuilt (Some ''data.bin'')], Inr demo_prepared2)"
  by (simp add: demo_defs phase_defs demo_prepared2_def)

lemma demo2_align:
  "align demo_env demo_prepared2 = ([AlignmentPass], Inr demo_aligned2)"
  by (simp add: demo_defs phase_defs demo_prepared2_def demo_aligned2_def)

lemma demo2_run:
  "\<exists>l r. register_binary demo_env (One demo_ops2) None True = (l, Inr (One r))"
  by (simp add: demo_defs phase_defs list_all_replicate)

lemma demo2_nframes:
  "map_option nframes (returned (register_binary demo_env (One demo_ops2) None True)) = Some 50"
  by (simp add: demo_defs phase_defs list_all_replicate)

section \<open>The frame count\<close>

text \<open>
  Claim C5. With a frame cap (\<open>frames_include\<close> other than -1) the frame count
  becomes the minimum of the count already in the dictionary and the cap. Without a cap
  it becomes the size in bytes of the measured file divided by \<open>2 * Ly * Lx\<close> and rounded
  down, for a frame of positive height and width.
\<close>

theorem frame_count_resolution:
  "(frames_include ops \<noteq> - 1 \<longrightarrow>
      resolve_nframes env ops
        = Inr (ops\<lparr>nframes := min (nframes ops) (frames_include ops)\<rparr>)) \<and>
   (frames_include ops = - 1 \<longrightarrow> measured_file env ops = Inr f \<longrightarrow>
      getsize env f = Some nbytes \<longrightarrow> 0 < Ly ops \<longrightarrow> 0 < Lx ops \<longrightarrow>
      resolve_nframes env ops
        = Inr (ops\<lparr>nframes := int nbytes div (2 * Ly ops * Lx ops)\<rparr>))"
  by (simp add: resolve_nframes_def bind_err_def int_truediv_def)

theorem frame_count_resolution_witness:
  "resolve_nframes demo_env (demo_ops\<lparr>nframes := 70, frames_include := 60\<rparr>)
     = Inr (demo_ops\<lparr>nframes := 60, frames_include := 60\<rparr>) \<and>
   resolve_nframes demo_env demo_ops = Inr (demo_ops\<lparr>nframes := 50\<rparr>)"
proof -
  have f: "measured_file demo_env demo_ops = Inr ''data.bin''"
    by (simp add: measured_file_def demo_ops_def)
  have g: "getsize demo_env ''data.bin'' = Some 25600"
    by (simp add: demo_env_def)
  have a: "resolve_nframes demo_env demo_ops = Inr (demo_ops\<lparr>nframes := 50\<rparr>)"
    using frame_count_resolution [of demo_ops demo_env "''data.bin''" 25600] f g
    by (simp add: demo_ops_def)
  have b: "resolve_nframes demo_env (demo_ops\<lparr>nframes := 70, frames_include := 60\<rparr>)
     = Inr (demo_ops\<lparr>nframes := 60, frames_include := 60\<rparr>)"
    using frame_count_resolution
      [of "demo_ops\<lparr>nframes := 70, frames_include := 60\<rparr>" demo_env]
    by (simp add: demo_ops_def)
  from a b show ?thesis by simp
qed

text \<open>
  Claim C2. When the frame count resolved at lines 46-50 is below 50, the call raises
  the exception of line 55 and has done nothing to the outside world: no reference
  image was built, no pass over the movie was run, no image stack and no dictionary was
  saved.
\<close>

theorem too_few_frames:
  assumes "(if nonrigid ops then make_blocks env ops else Inr ops) = Inr ops1"
    and "resolve_nframes env ops1 = Inr ops2"
    and "nframes ops2 < 50"
  shows "register_binary env (One ops) refImg0 raw0 = ([], Inl FrameCountError)"
  using assms by (simp add: register_session_def prepare_def bind_run_def quiet_def)

theorem too_few_frames_witness:
  "register_binary demo_env (One (demo_ops\<lparr>nframes := 70, frames_include := 40\<rparr>)) None True
     = ([], Inl FrameCountError)"
proof -
  let ?o = "demo_ops\<lparr>nframes := 70, frames_include := 40\<rparr>"
  have a: "(if nonrigid ?o then make_blocks demo_env ?o else Inr ?o) = Inr ?o"
    by (simp add: demo_ops_def)
  have b: "resolve_nframes demo_env ?o = Inr (?o\<lparr>nframes := 40\<rparr>)"
    by (simp add: resolve_nframes_def demo_ops_def)
  have c: "nframes (?o\<lparr>nframes := 40\<rparr>) < 50" by simp
  show ?thesis by (rule too_few_frames [OF a b c])
qed

section \<open>Lists of dictionaries\<close>

lemma register_each_Inr:
  "register_each env xs = (l, Inr ys) \<Longrightarrow>
     length ys = length xs \<and>
     (\<forall>i<length xs. \<exists>li. register_binary env (xs ! i) None True = (li, Inr (ys ! i)))"
proof (induction xs arbitrary: l ys)
  case Nil
  then show ?case by (simp add: quiet_def)
next
  case (Cons x xs)
  from Cons.prems obtain l1 y l2 ys' where
    x: "register_binary env x None True = (l1, Inr y)" and
    xs: "register_each env xs = (l2, Inr ys')" and ys: "ys = y # ys'"
    by (auto simp add: bind_run_Inr quiet_eq)
  from Cons.IH [OF xs] have
    len: "length ys' = length xs" and
    each: "\<forall>i<length xs. \<exists>li. register_binary env (xs ! i) None True = (li, Inr (ys' ! i))"
    by simp_all
  show ?case
  proof (intro conjI allI impI)
    show "length ys = length (x # xs)" using len ys by simp
  next
    fix i assume "i < length (x # xs)"
    then show "\<exists>li. register_binary env ((x # xs) ! i) None True = (li, Inr (ys ! i))"
      using x each ys by (cases i) auto
  qed
qed

text \<open>
  Claim C9. On a list, the arguments \<open>refImg\<close> and \<open>raw\<close> of the call are not used:
  the call does what it does with the defaults. When it returns, it returns a list as
  long as the one given, and its element at each position is what
  \<open>register_binary\<close> with \<open>refImg=None\<close>, \<open>raw=True\<close> returns for the element given at
  that position.
\<close>

theorem list_of_sessions:
  "register_binary env (Many xs) refImg0 raw0 = register_binary env (Many xs) None True \<and>
   (register_binary env (Many xs) refImg0 raw0 = (l, Inr r) \<longrightarrow>
      (\<exists>ys. r = Many ys \<and> length ys = length xs \<and>
        (\<forall>i<length xs. \<exists>li. register_binary env (xs ! i) None True = (li, Inr (ys ! i)))))"
proof (intro conjI impI)
  show "register_binary env (Many xs) refImg0 raw0 = register_binary env (Many xs) None True"
    by simp
next
  assume "register_binary env (Many xs) refImg0 raw0 = (l, Inr r)"
  then obtain ys where "register_each env xs = (l, Inr ys)" and "r = Many ys"
    by (auto simp add: bind_run_Inr quiet_eq)
  with register_each_Inr [of env xs l ys]
  show "\<exists>ys. r = Many ys \<and> length ys = length xs \<and>
        (\<forall>i<length xs. \<exists>li. register_binary env (xs ! i) None True = (li, Inr (ys ! i)))"
    by blast
qed

theorem list_of_sessions_witness:
  "register_binary demo_env (Many [One demo_ops]) (Some 5) False
     = register_binary demo_env (Many [One demo_ops]) None True \<and>
   (\<exists>l ys. register_binary demo_env (Many [One demo_ops]) (Some 5) False = (l, Inr (Many ys)) \<and>
      length ys = 1 \<and>
      (\<exists>li. register_binary demo_env (One demo_ops) None True = (li, Inr (ys ! 0))))"
proof -
  obtain l r where run: "register_binary demo_env (One demo_ops) None True = (l, Inr (One r))"
    using demo_run by blast
  have many: "register_binary demo_env (Many [One demo_ops]) (Some 5) False
      = (l, Inr (Many [One r]))"
    using run by (simp add: bind_run_def quiet_def)
  from list_of_sessions [of demo_env "[One demo_ops]" "Some 5" False l "Many [One r]"] many
  show ?thesis by auto
qed

section \<open>The mean images\<close>

text \<open>
  Claim C4. In a run that returns, the mean image of the alignment channel is kept under
  the key chosen at line 106 (\<open>meanImg\<close>, or \<open>meanImage_chan2\<close> for several channels
  whose functional channel is not the alignment channel), and it is the sum image yielded
  with the last batch divided by the frame count resolved at lines 46-50. Line 105 reads
  the count from the dictionary yielded with the last batch, so the alignment pass is
  taken to hand back the count it was given; \<open>compute_crop\<close> is taken to leave both
  keys alone.
\<close>

theorem alignment_mean_image:
  assumes run: "register_binary env (One ops) refImg0 raw0 = (l, Inr (One ops'))"
    and prep: "prepare env ops refImg0 raw0 = (l1, Inr p)"
    and algn: "align env p = (l2, Inr a)"
    and engine: "nframes (a_ops a) = nframes (p_ops p)"
    and crop: "\<forall>r. meanImg (compute_crop env r) = meanImg r \<and>
                   meanImage_chan2 (compute_crop env r) = meanImage_chan2 r"
  shows "(if nchannels (a_ops a) = 1 \<or> functional_chan (a_ops a) = align_by_chan (a_ops a)
          then meanImg ops' else meanImage_chan2 ops')
         = Some (img_div env (a_sum_img a) (nframes (p_ops p)))"
proof -
  from session_split [OF run prep algn] obtain l3 where "complete env p a = (l3, Inr ops')"
    by blast
  from complete_Inr [OF this] obtain ops1 mean_img la ops2 ops3 ops4 ops5 lb where
    m: "mean_image env (a_ops a) (a_sum_img a) = (ops1, mean_img)" and
    sc: "second_channel env p ops1 (a_offsets a) mean_img (a_k a) = (la, Inr ops2)" and
    t: "init_offsets ops2 = Inr ops3" "add_offsets ops3 (a_offsets a) = Inr ops4"
       "bad_frames env ops4 = Inr ops5" "finish env (p_raw p) ops5 = (lb, Inr ops')"
    by blast
  have a1: "meanImg ops' = meanImg ops2"
    by (rule tail_frame [OF t]) (simp_all add: crop)
  have a2: "meanImage_chan2 ops' = meanImage_chan2 ops2"
    by (rule tail_frame [OF t]) (simp_all add: crop)
  have b1: "meanImg ops2 = meanImg ops1"
    by (rule second_channel_frame [OF sc]) simp_all
  have b2: "meanImage_chan2 ops2 = meanImage_chan2 ops1"
    by (rule second_channel_frame [OF sc]) simp_all
  show ?thesis
  proof (cases "nchannels (a_ops a) = 1 \<or> functional_chan (a_ops a) = align_by_chan (a_ops a)")
    case True
    with m have "meanImg ops1 = Some (img_div env (a_sum_img a) (nframes (a_ops a)))"
      by (auto simp add: mean_image_def Let_def)
    with True a1 b1 engine show ?thesis by simp
  next
    case False
    with m have "meanImage_chan2 ops1 = Some (img_div env (a_sum_img a) (nframes (a_ops a)))"
      by (auto simp add: mean_image_def Let_def)
    with False a2 b2 engine show ?thesis by simp
  qed
qed

theorem alignment_mean_image_witness:
  "\<exists>l r. register_binary demo_env (One demo_ops) None True = (l, Inr (One r)) \<and>
         meanImg r = Some (img_div demo_env 500 50)"
proof -
  let ?p = "\<lparr>p_ops = demo_ops\<lparr>nframes := 50, bidiphase := 2, refImg := Some 1\<rparr>, p_raw = False,
              p_refImg = 1, reg_file_align = Some ''data.bin'', reg_file_alt = Some ''chan2.bin'',
              raw_file_align = None, raw_file_alt = None\<rparr>"
  let ?a = "\<lparr>a_ops = demo_ops\<lparr>nframes := 50, bidiphase := 2, refImg := Some 1\<rparr>,
              a_offsets = demo_offsets 50 1, a_sum_img = 500, a_k = 1\<rparr>"
  have prep: "prepare demo_env demo_ops None True = ([ReferenceBuilt (Some ''data.bin'')], Inr ?p)"
    by (simp add: demo_defs phase_defs)
  have algn: "align demo_env ?p = ([AlignmentPass], Inr ?a)"
    by (simp add: demo_defs phase_defs)
  have crop: "\<forall>r. meanImg (compute_crop demo_env r) = meanImg r \<and>
                   meanImage_chan2 (compute_crop demo_env r) = meanImage_chan2 r"
    by (simp add: demo_env_def)
  from alignment_mean_image [OF demo_run prep algn _ crop] demo_run
  show ?thesis by (simp add: demo_ops_def)
qed




text \<open>
  Claim C10. In a run that returns, with more than one channel and a functional channel
  that is not the alignment channel: the mean image of the alignment channel is kept
  under \<open>meanImage_chan2\<close>, that of the alternate channel under \<open>meanImag\<close>, and the
  keys \<open>meanImg\<close> and \<open>meanImg_chan2\<close> are as the alignment pass handed them back. And
  \<open>meanImg_chan2\<close> changes only in a run with more than one channel whose functional
  channel is the alignment channel. \<open>compute_crop\<close> is taken to leave the four keys
  alone.
\<close>

theorem mean_image_keys:
  assumes run: "register_binary env (One ops) refImg0 raw0 = (l, Inr (One ops'))"
    and prep: "prepare env ops refImg0 raw0 = (l1, Inr p)"
    and algn: "align env p = (l2, Inr a)"
    and crop: "\<forall>r. meanImg (compute_crop env r) = meanImg r \<and>
                   meanImage_chan2 (compute_crop env r) = meanImage_chan2 r \<and>
                   meanImag (compute_crop env r) = meanImag r \<and>
                   meanImg_chan2 (compute_crop env r) = meanImg_chan2 r"
  shows "(nchannels (a_ops a) > 1 \<and> functional_chan (a_ops a) \<noteq> align_by_chan (a_ops a) \<longrightarrow>
            meanImage_chan2 ops' = Some (img_div env (a_sum_img a) (nframes (a_ops a))) \<and>
            (\<exists>ys. shift_pass env p (a_ops a) (a_offsets a) = Inr (ys, None) \<and>
               (ys \<noteq> [] \<longrightarrow>
                  meanImag ops' = Some (img_div env (fst (last ys)) (int (length ys))))) \<and>
            meanImg ops' = meanImg (a_ops a) \<and>
            meanImg_chan2 ops' = meanImg_chan2 (a_ops a)) \<and>
         (meanImg_chan2 ops' \<noteq> meanImg_chan2 (a_ops a) \<longrightarrow>
            nchannels (a_ops a) > 1 \<and> functional_chan (a_ops a) = align_by_chan (a_ops a))"
proof -
  from session_split [OF run prep algn] obtain l3 where "complete env p a = (l3, Inr ops')"
    by blast
  from complete_Inr [OF this] obtain ops1 mean_img la ops2 ops3 ops4 ops5 lb where
    m: "mean_image env (a_ops a) (a_sum_img a) = (ops1, mean_img)" and
    sc: "second_channel env p ops1 (a_offsets a) mean_img (a_k a) = (la, Inr ops2)" and
    t: "init_offsets ops2 = Inr ops3" "add_offsets ops3 (a_offsets a) = Inr ops4"
       "bad_frames env ops4 = Inr ops5" "finish env (p_raw p) ops5 = (lb, Inr ops')"
    by blast
  have t1: "meanImg ops' = meanImg ops2"
    by (rule tail_frame [OF t]) (simp_all add: crop)
  have t2: "meanImage_chan2 ops' = meanImage_chan2 ops2"
    by (rule tail_frame [OF t]) (simp_all add: crop)
  have t3: "meanImag ops' = meanImag ops2"
    by (rule tail_frame [OF t]) (simp_all add: crop)
  have t4: "meanImg_chan2 ops' = meanImg_chan2 ops2"
    by (rule tail_frame [OF t]) (simp_all add: crop)
  have s1: "meanImg ops2 = meanImg ops1"
    by (rule second_channel_frame [OF sc]) simp_all
  have s2: "meanImage_chan2 ops2 = meanImage_chan2 ops1"
    by (rule second_channel_frame [OF sc]) simp_all
  have m4: "meanImg_chan2 ops1 = meanImg_chan2 (a_ops a)"
    by (rule mean_image_frame [OF m]) simp_all
  note ch = mean_image_chans [OF m]
  note sp = shift_pass_mean [OF m, of p "a_offsets a"]
  have differ: "meanImage_chan2 ops' = Some (img_div env (a_sum_img a) (nframes (a_ops a))) \<and>
            (\<exists>ys. shift_pass env p (a_ops a) (a_offsets a) = Inr (ys, None) \<and>
               (ys \<noteq> [] \<longrightarrow>
                  meanImag ops' = Some (img_div env (fst (last ys)) (int (length ys))))) \<and>
            meanImg ops' = meanImg (a_ops a) \<and>
            meanImg_chan2 ops' = meanImg_chan2 (a_ops a)"
    if multi: "nchannels (a_ops a) > 1"
      and d: "functional_chan (a_ops a) \<noteq> align_by_chan (a_ops a)"
  proof -
    from m multi d have o1: "ops1 = (a_ops a)\<lparr>meanImage_chan2 :=
        Some (img_div env (a_sum_img a) (nframes (a_ops a)))\<rparr>"
      by (auto simp add: mean_image_def Let_def)
    from second_channel_Inr [OF sc] multi ch obtain ys where
      ys: "shift_pass env p ops1 (a_offsets a) = Inr (ys, None)" and
      o2: "ops2 = store_second_mean env ops1 (if ys = [] then mean_img else fst (last ys))
                         (if ys = [] then a_k a else length ys - 1)"
      by auto
    from o2 d ch have o2': "ops2 = ops1\<lparr>meanImag := Some (img_div env
         (if ys = [] then mean_img else fst (last ys))
         (int (if ys = [] then a_k a else length ys - 1) + 1))\<rparr>"
      by (simp add: store_second_mean_def Let_def)
    have len: "ys \<noteq> [] \<Longrightarrow> int (length ys - 1) + 1 = int (length ys)"
      by (cases ys) simp_all
    have c1: "meanImage_chan2 ops' = Some (img_div env (a_sum_img a) (nframes (a_ops a)))"
      using t2 o2' o1 by simp
    have c2: "ys \<noteq> [] \<longrightarrow> meanImag ops' = Some (img_div env (fst (last ys)) (int (length ys)))"
      using t3 o2' len by simp
    have c3: "meanImg ops' = meanImg (a_ops a)"
      using t1 o2' o1 by simp
    have c4: "meanImg_chan2 ops' = meanImg_chan2 (a_ops a)"
      using t4 o2' o1 by simp
    from ys sp c1 c2 c3 c4 show ?thesis by auto
  qed
  have only: "nchannels (a_ops a) > 1 \<and> functional_chan (a_ops a) = align_by_chan (a_ops a)"
    if ne: "meanImg_chan2 ops' \<noteq> meanImg_chan2 (a_ops a)"
  proof (rule ccontr)
    assume n: "\<not> (nchannels (a_ops a) > 1 \<and> functional_chan (a_ops a) = align_by_chan (a_ops a))"
    have "meanImg_chan2 ops2 = meanImg_chan2 ops1"
    proof (cases "nchannels (a_ops a) > 1")
      case False
      with second_channel_Inr [OF sc] ch show ?thesis by auto
    next
      case True
      with n have "functional_chan ops1 \<noteq> align_by_chan ops1" using ch by simp
      with second_channel_Inr [OF sc] show ?thesis
        by (auto simp add: store_second_mean_def Let_def)
    qed
    with t4 m4 ne show False by simp
  qed
  from differ only show ?thesis by blast
qed

theorem mean_image_keys_witness:
  "\<exists>l r. register_binary demo_env (One demo_ops2) None True = (l, Inr (One r)) \<and>
         meanImage_chan2 r = Some (img_div demo_env 500 50) \<and>
         meanImag r = Some (img_div demo_env 80 2) \<and>
         meanImg r = None \<and> meanImg_chan2 r = None"
proof -
  from demo2_run obtain l r where
    run: "register_binary demo_env (One demo_ops2) None True = (l, Inr (One r))" by blast
  have multi: "nchannels (a_ops demo_aligned2) > 1 \<and>
      functional_chan (a_ops demo_aligned2) \<noteq> align_by_chan (a_ops demo_aligned2)"
    by (simp add: demo_aligned2_def demo_prepared2_def demo_defs)
  have pass: "shift_pass demo_env demo_prepared2 (a_ops demo_aligned2) (a_offsets demo_aligned2)
      = Inr ([(30, 0), (80, 1)], None)"
    by (simp add: demo_aligned2_def demo_prepared2_def demo_defs shift_pass_def bind_err_def
        lookup_def)
  have crop: "\<forall>r. meanImg (compute_crop demo_env r) = meanImg r \<and>
                   meanImage_chan2 (compute_crop demo_env r) = meanImage_chan2 r \<and>
                   meanImag (compute_crop demo_env r) = meanImag r \<and>
                   meanImg_chan2 (compute_crop demo_env r) = meanImg_chan2 r"
    by (simp add: demo_env_def)
  from mean_image_keys [OF run demo2_prepare demo2_align crop] multi pass
  have "meanImage_chan2 r = Some (img_div demo_env 500 50) \<and>
         meanImag r = Some (img_div demo_env 80 2) \<and>
         meanImg r = None \<and> meanImg_chan2 r = None"
    by (simp add: demo_aligned2_def demo_prepared2_def demo_defs)
  with run show ?thesis by blast
qed

section \<open>The flag bidi_corrected\<close>

text \<open>
  Claim C8, as amended. In a run that returns and did not register the raw file (the
  caller passed \<open>raw=False\<close>, or \<open>keep_movie_raw\<close> is absent or false, or \<open>raw_file\<close> is
  absent or not a file), the returned dictionary has \<open>bidi_corrected\<close> true. Line 176
  sets the flag under \<open>if not raw\<close> only.
\<close>

theorem bidi_corrected_without_raw:
  assumes run: "register_binary env (One ops) refImg0 raw0 = (l, Inr (One ops'))"
    and prep: "prepare env ops refImg0 raw0 = (l1, Inr p)"
    and noraw: "\<not> p_raw p"
  shows "bidi_corrected ops'"
proof -
  from session_steps [OF run] prep obtain a l3 where "complete env p a = (l3, Inr ops')"
    by auto
  from complete_Inr [OF this] obtain ops5 lb where
    "finish env (p_raw p) ops5 = (lb, Inr ops')"
    by blast
  from finish_Inr [OF this] noraw show ?thesis by simp
qed

theorem bidi_corrected_without_raw_witness:
  "\<exists>l r. register_binary demo_env (One demo_ops) None True = (l, Inr (One r)) \<and>
         bidi_corrected r"
proof -
  let ?p = "\<lparr>p_ops = demo_ops\<lparr>nframes := 50, bidiphase := 2, refImg := Some 1\<rparr>, p_raw = False,
              p_refImg = 1, reg_file_align = Some ''data.bin'', reg_file_alt = Some ''chan2.bin'',
              raw_file_align = None, raw_file_alt = None\<rparr>"
  have prep: "prepare demo_env demo_ops None True = ([ReferenceBuilt (Some ''data.bin'')], Inr ?p)"
    by (simp add: demo_defs phase_defs)
  from bidi_corrected_without_raw [OF demo_run prep] demo_run
  show ?thesis by simp
qed

text \<open>
  The claim as stated fails when the raw file is registered: the run returns and the
  flag is as it came in.
\<close>

theorem bidi_corrected_counterexample:
  "map_option bidi_corrected
     (returned (register_binary demo_env
        (One (demo_ops\<lparr>keep_movie_raw := Some True, raw_file := Some ''raw.bin''\<rparr>)) None True))
   = Some False"
  by (simp add: demo_defs phase_defs)

section \<open>A reference image from the caller\<close>

text \<open>
  Claim C6. When the caller gives a reference image, \<open>compute_reference_image\<close> is not
  called, whatever the outcome of the run. When the run returns, the returned
  dictionary has the \<open>bidiphase\<close> it came in with, \<open>register_binary\<close> having no other
  assignment to that key; the collaborators that hand back a dictionary
  (\<open>make_blocks\<close>, the alignment pass, \<open>compute_crop\<close>) are taken to leave the key alone.
\<close>

theorem reference_given:
  assumes run: "register_binary env (One ops) (Some img) raw0 = (l, res)"
    and blocks: "\<forall>r r'. make_blocks env r = Inr r' \<longrightarrow> bidiphase r' = bidiphase r"
    and engine: "\<forall>nb ly lx n r m f g.
       \<forall>y\<in>set (fst (register_binary_to_ref env nb ly lx n r m f g)).
         bidiphase (fst y) = bidiphase r"
    and crop: "\<forall>r. bidiphase (compute_crop env r) = bidiphase r"
  shows "(\<forall>f. ReferenceBuilt f \<notin> set l) \<and>
         (\<forall>ops'. res = Inr (One ops') \<longrightarrow> bidiphase ops' = bidiphase ops)"
proof (intro conjI allI impI)
  fix f
  obtain ls rs where s: "register_session env ops (Some img) raw0 = (ls, rs)"
    by (cases "register_session env ops (Some img) raw0")
  with run have "l = ls"
    by (cases rs) (simp_all add: bind_run_def quiet_def)
  with session_given_log [of f env ops img raw0] s
  show "ReferenceBuilt f \<notin> set l" by simp
next
  fix ops' assume "res = Inr (One ops')"
  with run have run': "register_binary env (One ops) (Some img) raw0 = (l, Inr (One ops'))"
    by simp
  from session_steps [OF run'] obtain l1 p l2 a l3 where
    prep: "prepare env ops (Some img) raw0 = (l1, Inr p)" and
    algn: "align env p = (l2, Inr a)" and
    comp: "complete env p a = (l3, Inr ops')"
    by blast
  from prepare_given [OF prep] obtain ops1 n where
    b: "(if nonrigid ops then make_blocks env ops else Inr ops) = Inr ops1" and
    q: "p_ops p = ops1\<lparr>nframes := n, refImg := Some img\<rparr>"
    by blast
  from b blocks have b1: "bidiphase ops1 = bidiphase ops"
    by (cases "nonrigid ops") auto
  from align_Inr [OF algn] obtain ys where
    ys: "register_binary_to_ref env (batch_size (p_ops p)) (Ly (p_ops p)) (Lx (p_ops p))
           (nframes (p_ops p)) (p_ops p) (prepare_refAndMasks env (p_refImg p) (p_ops p))
           (reg_file_align p) (raw_file_align p) = (ys, None)" and
    ne: "ys \<noteq> []" and la: "a_ops a = fst (last ys)"
    by blast
  from ne have "last ys \<in> set ys" by simp
  with engine ys la have b2: "bidiphase (a_ops a) = bidiphase (p_ops p)"
    by (metis fst_conv)
  from complete_Inr [OF comp] obtain ops1' mean_img la' ops2 ops3 ops4 ops5 lb where
    m: "mean_image env (a_ops a) (a_sum_img a) = (ops1', mean_img)" and
    sc: "second_channel env p ops1' (a_offsets a) mean_img (a_k a) = (la', Inr ops2)" and
    t: "init_offsets ops2 = Inr ops3" "add_offsets ops3 (a_offsets a) = Inr ops4"
       "bad_frames env ops4 = Inr ops5" "finish env (p_raw p) ops5 = (lb, Inr ops')"
    by blast
  have "bidiphase ops' = bidiphase ops2"
    by (rule tail_frame [OF t]) (simp_all add: crop)
  moreover have "bidiphase ops2 = bidiphase ops1'"
    by (rule second_channel_frame [OF sc]) simp_all
  moreover have "bidiphase ops1' = bidiphase (a_ops a)"
    by (rule mean_image_frame [OF m]) simp_all
  ultimately show "bidiphase ops' = bidiphase ops"
    using b1 b2 q by simp
qed

theorem reference_given_witness:
  "\<exists>l r. register_binary demo_env (One demo_ops) (Some 7) True = (l, Inr (One r)) \<and>
         (\<forall>f. ReferenceBuilt f \<notin> set l) \<and> bidiphase r = bidiphase demo_ops"
proof -
  obtain l r where run: "register_binary demo_env (One demo_ops) (Some 7) True = (l, Inr (One r))"
    by (simp add: demo_defs phase_defs)
  have blocks: "\<forall>r r'. make_blocks demo_env r = Inr r' \<longrightarrow> bidiphase r' = bidiphase r"
    by (auto simp add: demo_env_def)
  have engine: "\<forall>nb ly lx n r m f g.
       \<forall>y\<in>set (fst (register_binary_to_ref demo_env nb ly lx n r m f g)).
         bidiphase (fst y) = bidiphase r"
    by (simp add: demo_env_def)
  have crop: "\<forall>r. bidiphase (compute_crop demo_env r) = bidiphase r"
    by (simp add: demo_env_def)
  from reference_given [OF run blocks engine crop] run show ?thesis by simp
qed

section \<open>The bad-frame mask\<close>

text \<open>
  Claim C7, as amended. In a run that returns, the mask that lines 163-171 build and
  hand to \<open>compute_crop\<close> is a boolean array with one entry per frame. Without an
  override file it is all false. With one, the entry of frame \<open>j\<close> is true exactly when
  the file lists \<open>j\<close>, a negative entry counting from the end as numpy indexing does;
  for a file of indices from 0 on, exactly the listed frames are true. A missing file, a
  missing \<open>data_path\<close> and an empty one are not errors: lines 163-171 then return the
  all-false mask. The dictionary returned is the one \<open>compute_crop\<close> returns for the
  dictionary holding that mask (with the flag of line 177), so the returned \<open>badframes\<close>
  is what \<open>compute_crop\<close> makes of the mask.
\<close>

theorem bad_frame_mask_built:
  assumes run: "register_binary env (One ops) refImg0 raw0 = (l, Inr (One ops'))"
    and prep: "prepare env ops refImg0 raw0 = (l1, Inr p)"
    and algn: "align env p = (l2, Inr a)"
  shows "(\<exists>ops5 bs.
          ops' = (if \<not> p_raw p then (compute_crop env ops5)\<lparr>bidi_corrected := True\<rparr>
                  else compute_crop env ops5) \<and>
          badframes ops' = badframes (compute_crop env ops5) \<and>
          badframes ops5 = Some bs \<and> length bs = nat (nframes ops5) \<and>
          (badfrfile env (a_ops a) = None \<longrightarrow> bs = replicate (nat (nframes ops5)) False) \<and>
          (\<forall>f. badfrfile env (a_ops a) = Some f \<longrightarrow>
             (\<exists>idx. np_load env f = Some idx \<and>
                (\<forall>j<length bs. bs ! j \<longleftrightarrow>
                   (\<exists>i\<in>set idx. (if i < 0 then nframes ops5 + i else i) = int j)) \<and>
                ((\<forall>i\<in>set idx. 0 \<le> i) \<longrightarrow> (\<forall>j<length bs. bs ! j \<longleftrightarrow> int j \<in> set idx))))) \<and>
         (\<forall>r. badfrfile env r = None \<longrightarrow> 0 \<le> nframes r \<longrightarrow>
            bad_frames env r = Inr (r\<lparr>badframes := Some (replicate (nat (nframes r)) False)\<rparr>)) \<and>
         (\<forall>r. data_path r = None \<or> data_path r = Some [] \<longrightarrow> badfrfile env r = None)"
proof (intro conjI)
  from session_split [OF run prep algn] obtain l3 where "complete env p a = (l3, Inr ops')"
    by blast
  from complete_Inr [OF this] obtain ops1 mean_img la ops2 ops3 ops4 ops5 lb where
    m: "mean_image env (a_ops a) (a_sum_img a) = (ops1, mean_img)" and
    sc: "second_channel env p ops1 (a_offsets a) mean_img (a_k a) = (la, Inr ops2)" and
    i: "init_offsets ops2 = Inr ops3" and ad: "add_offsets ops3 (a_offsets a) = Inr ops4" and
    bf: "bad_frames env ops4 = Inr ops5" and fin: "finish env (p_raw p) ops5 = (lb, Inr ops')"
    by blast
  have "data_path ops4 = data_path ops3" by (rule add_offsets_frame [OF ad]) simp_all
  moreover have "data_path ops3 = data_path ops2" by (rule init_offsets_frame [OF i]) simp_all
  moreover have "data_path ops2 = data_path ops1" by (rule second_channel_frame [OF sc]) simp_all
  moreover have "data_path ops1 = data_path (a_ops a)" by (rule mean_image_frame [OF m]) simp_all
  ultimately have "data_path ops4 = data_path (a_ops a)" by simp
  then have fl: "badfrfile env ops4 = badfrfile env (a_ops a)"
    by (rule badfrfile_cong)
  from bad_frames_Inr [OF bf] obtain bs where
    o5: "ops5 = ops4\<lparr>badframes := Some bs\<rparr>" and pos: "0 \<le> nframes ops4" and
    bs: "case badfrfile env ops4 of
              None \<Rightarrow> bs = replicate (nat (nframes ops4)) False
            | Some f \<Rightarrow> (\<exists>idx. np_load env f = Some idx \<and>
                           set_true (replicate (nat (nframes ops4)) False) idx = Inr bs)"
    by blast
  from finish_Inr [OF fin] have
    ret: "ops' = (if \<not> p_raw p then (compute_crop env ops5)\<lparr>bidi_corrected := True\<rparr>
                  else compute_crop env ops5)" .
  then have rb: "badframes ops' = badframes (compute_crop env ops5)" by simp
  from o5 have n: "nframes ops5 = nframes ops4" by simp
  have len: "length bs = nat (nframes ops4)"
  proof (cases "badfrfile env ops4")
    case None
    with bs show ?thesis by simp
  next
    case (Some f)
    with bs obtain idx where "set_true (replicate (nat (nframes ops4)) False) idx = Inr bs"
      by auto
    from set_true_Inr [OF this] show ?thesis by simp
  qed
  have absent: "badfrfile env (a_ops a) = None \<longrightarrow> bs = replicate (nat (nframes ops5)) False"
    using bs fl n by (auto split: option.splits)
  have present: "\<exists>idx. np_load env f = Some idx \<and>
                (\<forall>j<length bs. bs ! j \<longleftrightarrow>
                   (\<exists>i\<in>set idx. (if i < 0 then nframes ops5 + i else i) = int j)) \<and>
                ((\<forall>i\<in>set idx. 0 \<le> i) \<longrightarrow> (\<forall>j<length bs. bs ! j \<longleftrightarrow> int j \<in> set idx))"
    if f: "badfrfile env (a_ops a) = Some f" for f
  proof -
    from f fl bs obtain idx where
      ld: "np_load env f = Some idx" and
      st: "set_true (replicate (nat (nframes ops4)) False) idx = Inr bs"
      by auto
    from pos n have cnv: "int (length (replicate (nat (nframes ops4)) False)) = nframes ops5"
      by simp
    from set_true_Inr [OF st] have
      "\<forall>j<length (replicate (nat (nframes ops4)) False). bs ! j \<longleftrightarrow>
         replicate (nat (nframes ops4)) False ! j \<or>
         (\<exists>i\<in>set idx. (if i < 0 then int (length (replicate (nat (nframes ops4)) False)) + i
            else i) = int j)"
      by blast
    then have
      at: "\<forall>j<length bs. bs ! j \<longleftrightarrow>
             (\<exists>i\<in>set idx. (if i < 0 then nframes ops5 + i else i) = int j)"
      unfolding cnv using len by simp
    have nonneg: "\<forall>j<length bs. bs ! j \<longleftrightarrow> int j \<in> set idx" if nn: "\<forall>i\<in>set idx. 0 \<le> i"
    proof (intro allI impI)
      fix j assume "j < length bs"
      with at have e: "bs ! j \<longleftrightarrow> (\<exists>i\<in>set idx. (if i < 0 then nframes ops5 + i else i) = int j)"
        by simp
      have "(\<exists>i\<in>set idx. (if i < 0 then nframes ops5 + i else i) = int j)
          \<longleftrightarrow> (\<exists>i\<in>set idx. i = int j)"
      proof (rule bex_cong [OF refl])
        fix i assume "i \<in> set idx"
        with nn have "\<not> i < 0" by auto
        then show "((if i < 0 then nframes ops5 + i else i) = int j) = (i = int j)" by simp
      qed
      with e show "bs ! j \<longleftrightarrow> int j \<in> set idx" by simp
    qed
    show ?thesis
    proof (intro exI [of _ idx] conjI impI)
      show "np_load env f = Some idx" by (rule ld)
      show "\<forall>j<length bs. bs ! j \<longleftrightarrow>
             (\<exists>i\<in>set idx. (if i < 0 then nframes ops5 + i else i) = int j)" by (rule at)
      assume "\<forall>i\<in>set idx. 0 \<le> i"
      then show "\<forall>j<length bs. bs ! j \<longleftrightarrow> int j \<in> set idx" by (rule nonneg)
    qed
  qed
  from o5 have bo: "badframes ops5 = Some bs" by simp
  from len n have ln: "length bs = nat (nframes ops5)" by simp
  show "\<exists>ops5 bs.
          ops' = (if \<not> p_raw p then (compute_crop env ops5)\<lparr>bidi_corrected := True\<rparr>
                  else compute_crop env ops5) \<and>
          badframes ops' = badframes (compute_crop env ops5) \<and>
          badframes ops5 = Some bs \<and> length bs = nat (nframes ops5) \<and>
          (badfrfile env (a_ops a) = None \<longrightarrow> bs = replicate (nat (nframes ops5)) False) \<and>
          (\<forall>f. badfrfile env (a_ops a) = Some f \<longrightarrow>
             (\<exists>idx. np_load env f = Some idx \<and>
                (\<forall>j<length bs. bs ! j \<longleftrightarrow>
                   (\<exists>i\<in>set idx. (if i < 0 then nframes ops5 + i else i) = int j)) \<and>
                ((\<forall>i\<in>set idx. 0 \<le> i) \<longrightarrow> (\<forall>j<length bs. bs ! j \<longleftrightarrow> int j \<in> set idx))))"
  proof (intro exI [of _ ops5] exI [of _ bs] conjI allI impI)
    show "ops' = (if \<not> p_raw p then (compute_crop env ops5)\<lparr>bidi_corrected := True\<rparr>
                  else compute_crop env ops5)" by (rule ret)
    show "badframes ops' = badframes (compute_crop env ops5)" by (rule rb)
    show "badframes ops5 = Some bs" by (rule bo)
    show "length bs = nat (nframes ops5)" by (rule ln)
    show "bs = replicate (nat (nframes ops5)) False" if "badfrfile env (a_ops a) = None"
      using absent that by simp
    show "\<exists>idx. np_load env f = Some idx \<and>
                (\<forall>j<length bs. bs ! j \<longleftrightarrow>
                   (\<exists>i\<in>set idx. (if i < 0 then nframes ops5 + i else i) = int j)) \<and>
                ((\<forall>i\<in>set idx. 0 \<le> i) \<longrightarrow> (\<forall>j<length bs. bs ! j \<longleftrightarrow> int j \<in> set idx))"
      if "badfrfile env (a_ops a) = Some f" for f
      using that by (rule present)
  qed
next
  show "\<forall>r. badfrfile env r = None \<longrightarrow> 0 \<le> nframes r \<longrightarrow>
            bad_frames env r = Inr (r\<lparr>badframes := Some (replicate (nat (nframes r)) False)\<rparr>)"
    by (simp add: bad_frames_def np_zeros_def bind_err_def)
next
  show "\<forall>r. data_path r = None \<or> data_path r = Some [] \<longrightarrow> badfrfile env r = None"
    by (auto simp add: badfrfile_def)
qed

theorem bad_frame_mask_built_witness:
  "\<exists>l r bs. register_binary demo_env (One demo_ops2) None True = (l, Inr (One r)) \<and>
      badframes r = Some bs \<and> length bs = 50 \<and>
      (\<forall>j<length bs. bs ! j \<longleftrightarrow> int j \<in> set [3, 7])"
proof -
  from demo2_run obtain l r where
    run: "register_binary demo_env (One demo_ops2) None True = (l, Inr (One r))" by blast
  with demo2_nframes have nf: "nframes r = 50" by (simp add: returned_def)
  have fl: "badfrfile demo_env (a_ops demo_aligned2) = Some ''d/bad_frames.npy''"
    by (simp add: badfrfile_def demo_aligned2_def demo_prepared2_def demo_defs)
  have ld: "np_load demo_env ''d/bad_frames.npy'' = Some [3, 7]"
    by (simp add: demo_env_def)
  from bad_frame_mask_built [OF run demo2_prepare demo2_align] obtain ops5 bs where
    ret: "r = (if \<not> p_raw demo_prepared2
               then (compute_crop demo_env ops5)\<lparr>bidi_corrected := True\<rparr>
               else compute_crop demo_env ops5)" and
    rb: "badframes r = badframes (compute_crop demo_env ops5)" and
    b: "badframes ops5 = Some bs" "length bs = nat (nframes ops5)" and
    f: "\<forall>f. badfrfile demo_env (a_ops demo_aligned2) = Some f \<longrightarrow>
             (\<exists>idx. np_load demo_env f = Some idx \<and>
                (\<forall>j<length bs. bs ! j \<longleftrightarrow>
                   (\<exists>i\<in>set idx. (if i < 0 then nframes ops5 + i else i) = int j)) \<and>
                ((\<forall>i\<in>set idx. 0 \<le> i) \<longrightarrow> (\<forall>j<length bs. bs ! j \<longleftrightarrow> int j \<in> set idx)))"
    by blast
  from ret have "nframes r = nframes ops5" by (simp add: demo_env_def split: if_splits)
  with nf b have len: "length bs = 50" by simp
  from rb b have br: "badframes r = Some bs" by (simp add: demo_env_def)
  from f fl ld have "(\<forall>i\<in>set [3, 7 :: int]. 0 \<le> i) \<longrightarrow>
      (\<forall>j<length bs. bs ! j \<longleftrightarrow> int j \<in> set [3, 7])"
    by auto
  then have "\<forall>j<length bs. bs ! j \<longleftrightarrow> int j \<in> set [3, 7]" by simp
  with run br len show ?thesis by blast
qed

text \<open>
  The claim as stated, about the returned mask, fails with a \<open>compute_crop\<close> that marks
  a frame of its own: the file lists the frames 3 and 7, and the returned mask is true
  at frame 0 as well.
\<close>

theorem bad_frame_mask_counterexample:
  "badfrfile demo_env_crop (a_ops demo_aligned2) = Some ''d/bad_frames.npy'' \<and>
   np_load demo_env_crop ''d/bad_frames.npy'' = Some [3, 7] \<and>
   map_option badframes (returned (register_binary demo_env_crop (One demo_ops2) None True))
     = Some (Some ((replicate 50 False)[3 := True, 7 := True, 0 := True])) \<and>
   (replicate 50 False)[3 := True, 7 := True, 0 := True] ! 0 \<and>
   (0::int) \<notin> set [3, 7]"
  by (simp add: demo_env_crop_def demo_defs phase_defs list_all_replicate demo_aligned2_def
      demo_prepared2_def)

section \<open>The displacement history\<close>

text \<open>
  Claim C1. In a run that returns, \<open>yoff\<close>, \<open>xoff\<close> and \<open>corrXY\<close> have one entry per
  frame of the returned \<open>nframes\<close>, and so have \<open>yoff1\<close>, \<open>xoff1\<close> and \<open>corrXY1\<close> (one
  row per frame) when \<open>nonrigid\<close> is set. Entry \<open>i\<close> receives the shift of frame \<open>i\<close>, once:
  on a first registration (no key \<open>yoff\<close>) the arrays are the arrays of shifts the
  alignment pass yielded with its last batch, and on a dictionary that has a history
  already the shift of frame \<open>i\<close> is added to entry \<open>i\<close>. The alignment pass is taken to
  yield one shift per frame with its last batch and to hand back the frame count it was
  given; \<open>compute_crop\<close> is taken to leave \<open>nframes\<close> and the six arrays alone.
\<close>

theorem displacement_history:
  assumes run: "register_binary env (One ops) refImg0 raw0 = (l, Inr (One ops'))"
    and prep: "prepare env ops refImg0 raw0 = (l1, Inr p)"
    and algn: "align env p = (l2, Inr a)"
    and engine: "nframes (a_ops a) = nframes (p_ops p)"
    and batch: "length (offsets0 (a_offsets a)) = nat (nframes (a_ops a)) \<and>
                length (offsets1 (a_offsets a)) = nat (nframes (a_ops a)) \<and>
                length (offsets2 (a_offsets a)) = nat (nframes (a_ops a))"
    and blocks: "nonrigid (a_ops a) \<longrightarrow>
                length (rows (offsets3 (a_offsets a))) = nat (nframes (a_ops a)) \<and>
                length (rows (offsets4 (a_offsets a))) = nat (nframes (a_ops a)) \<and>
                length (rows (offsets5 (a_offsets a))) = nat (nframes (a_ops a))"
    and crop: "\<forall>r. nframes (compute_crop env r) = nframes r \<and>
                   yoff (compute_crop env r) = yoff r \<and> xoff (compute_crop env r) = xoff r \<and>
                   corrXY (compute_crop env r) = corrXY r \<and>
                   yoff1 (compute_crop env r) = yoff1 r \<and> xoff1 (compute_crop env r) = xoff1 r \<and>
                   corrXY1 (compute_crop env r) = corrXY1 r"
  shows "\<exists>y x c. yoff ops' = Some y \<and> xoff ops' = Some x \<and> corrXY ops' = Some c \<and>
           length y = nat (nframes ops') \<and> length x = nat (nframes ops') \<and>
           length c = nat (nframes ops') \<and>
           (yoff (a_ops a) = None \<longrightarrow>
              y = offsets0 (a_offsets a) \<and> x = offsets1 (a_offsets a) \<and>
              c = offsets2 (a_offsets a)) \<and>
           (\<forall>y0 x0 c0. yoff (a_ops a) = Some y0 \<longrightarrow> xoff (a_ops a) = Some x0 \<longrightarrow>
              corrXY (a_ops a) = Some c0 \<longrightarrow>
              (\<forall>i<nat (nframes ops').
                 y ! i = y0 ! i + offsets0 (a_offsets a) ! i \<and>
                 x ! i = x0 ! i + offsets1 (a_offsets a) ! i \<and>
                 c ! i = c0 ! i + offsets2 (a_offsets a) ! i)) \<and>
           (nonrigid (a_ops a) \<longrightarrow>
              (\<exists>y1 x1 c1. yoff1 ops' = Some y1 \<and> xoff1 ops' = Some x1 \<and> corrXY1 ops' = Some c1 \<and>
                 length (rows y1) = nat (nframes ops') \<and>
                 length (rows x1) = nat (nframes ops') \<and>
                 length (rows c1) = nat (nframes ops') \<and>
                 (yoff (a_ops a) = None \<longrightarrow>
                    (\<forall>n0 n1. nblocks (a_ops a) = Some (n0, n1) \<longrightarrow>
                       (ncols (offsets3 (a_offsets a)) = nat (n0 * n1) \<longrightarrow>
                          y1 = offsets3 (a_offsets a)) \<and>
                       (ncols (offsets4 (a_offsets a)) = nat (n0 * n1) \<longrightarrow>
                          x1 = offsets4 (a_offsets a)) \<and>
                       (ncols (offsets5 (a_offsets a)) = nat (n0 * n1) \<longrightarrow>
                          c1 = offsets5 (a_offsets a)))) \<and>
                 (\<forall>y10 x10 c10. yoff (a_ops a) \<noteq> None \<longrightarrow> yoff1 (a_ops a) = Some y10 \<longrightarrow>
                    xoff1 (a_ops a) = Some x10 \<longrightarrow> corrXY1 (a_ops a) = Some c10 \<longrightarrow>
                    (\<forall>i<nat (nframes ops').
                       rows y1 ! i = iadd_row (rows y10 ! i) (rows (offsets3 (a_offsets a)) ! i) \<and>
                       rows x1 ! i = iadd_row (rows x10 ! i) (rows (offsets4 (a_offsets a)) ! i) \<and>
                       rows c1 ! i = iadd_row (rows c10 ! i) (rows (offsets5 (a_offsets a)) ! i)))))"
proof -
  define offs where "offs = a_offsets a"
  define n where "n = nat (nframes (a_ops a))"
  from prepare_nframes [OF prep] engine have big: "50 \<le> nframes (a_ops a)" by simp
  then have n1: "1 < n" and n0: "0 \<le> nframes (a_ops a)" by (simp_all add: n_def)
  from session_split [OF run prep algn] obtain l3 where "complete env p a = (l3, Inr ops')"
    by blast
  from complete_Inr [OF this] obtain ops1 mean_img la ops2 ops3 ops4 ops5 lb where
    m: "mean_image env (a_ops a) (a_sum_img a) = (ops1, mean_img)" and
    sc: "second_channel env p ops1 (a_offsets a) mean_img (a_k a) = (la, Inr ops2)" and
    i: "init_offsets ops2 = Inr ops3" and ad: "add_offsets ops3 offs = Inr ops4" and
    bf: "bad_frames env ops4 = Inr ops5" and fin: "finish env (p_raw p) ops5 = (lb, Inr ops')"
    unfolding offs_def by blast
  \<comment> \<open>the dictionary at line 142 has the history keys the alignment pass handed back\<close>
  have p_n: "nframes ops2 = nframes (a_ops a)"
    using second_channel_frame [OF sc, of nframes] mean_image_frame [OF m, of nframes] by simp
  have p_nr: "nonrigid ops2 = nonrigid (a_ops a)"
    using second_channel_frame [OF sc, of nonrigid] mean_image_frame [OF m, of nonrigid] by simp
  have p_nb: "nblocks ops2 = nblocks (a_ops a)"
    using second_channel_frame [OF sc, of nblocks] mean_image_frame [OF m, of nblocks] by simp
  have p_y: "yoff ops2 = yoff (a_ops a)"
    using second_channel_frame [OF sc, of yoff] mean_image_frame [OF m, of yoff] by simp
  have p_x: "xoff ops2 = xoff (a_ops a)"
    using second_channel_frame [OF sc, of xoff] mean_image_frame [OF m, of xoff] by simp
  have p_c: "corrXY ops2 = corrXY (a_ops a)"
    using second_channel_frame [OF sc, of corrXY] mean_image_frame [OF m, of corrXY] by simp
  have p_y1: "yoff1 ops2 = yoff1 (a_ops a)"
    using second_channel_frame [OF sc, of yoff1] mean_image_frame [OF m, of yoff1] by simp
  have p_x1: "xoff1 ops2 = xoff1 (a_ops a)"
    using second_channel_frame [OF sc, of xoff1] mean_image_frame [OF m, of xoff1] by simp
  have p_c1: "corrXY1 ops2 = corrXY1 (a_ops a)"
    using second_channel_frame [OF sc, of corrXY1] mean_image_frame [OF m, of corrXY1] by simp
  \<comment> \<open>the returned dictionary has the history keys of line 159\<close>
  have q_y: "yoff ops' = yoff ops4"
    using finish_frame [OF fin, of yoff] bad_frames_frame [OF bf, of yoff] crop by simp
  have q_x: "xoff ops' = xoff ops4"
    using finish_frame [OF fin, of xoff] bad_frames_frame [OF bf, of xoff] crop by simp
  have q_c: "corrXY ops' = corrXY ops4"
    using finish_frame [OF fin, of corrXY] bad_frames_frame [OF bf, of corrXY] crop by simp
  have q_y1: "yoff1 ops' = yoff1 ops4"
    using finish_frame [OF fin, of yoff1] bad_frames_frame [OF bf, of yoff1] crop by simp
  have q_x1: "xoff1 ops' = xoff1 ops4"
    using finish_frame [OF fin, of xoff1] bad_frames_frame [OF bf, of xoff1] crop by simp
  have q_c1: "corrXY1 ops' = corrXY1 ops4"
    using finish_frame [OF fin, of corrXY1] bad_frames_frame [OF bf, of corrXY1] crop by simp
  have q_n: "nframes ops' = nframes ops4"
    using finish_frame [OF fin, of nframes] bad_frames_frame [OF bf, of nframes] crop by simp
  have "nframes ops4 = nframes ops3" by (rule add_offsets_frame [OF ad]) simp_all
  moreover have "nframes ops3 = nframes ops2" by (rule init_offsets_frame [OF i]) simp_all
  ultimately have nn: "nat (nframes ops') = n" using p_n q_n by (simp add: n_def)
  have nr3: "nonrigid ops3 = nonrigid (a_ops a)"
    using init_offsets_frame [OF i, of nonrigid] p_nr by simp
  from batch have b0: "length (offsets0 offs) = n" and b1: "length (offsets1 offs) = n"
    and b2: "length (offsets2 offs) = n" by (simp_all add: offs_def n_def)
  \<comment> \<open>lines 153-159\<close>
  from add_offsets_Inr [OF ad] obtain a0 a1 a2 y x c where
    s: "yoff ops3 = Some a0" "xoff ops3 = Some a1" "corrXY ops3 = Some a2" and
    ad0: "iadd a0 (offsets0 offs) = Inr y" and ad1: "iadd a1 (offsets1 offs) = Inr x" and
    ad2: "iadd a2 (offsets2 offs) = Inr c" and
    o4: "(\<not> nonrigid ops3 \<and> ops4 = ops3\<lparr>yoff := Some y, xoff := Some x, corrXY := Some c\<rparr>) \<or>
         (nonrigid ops3 \<and>
           (\<exists>a3 a4 a5 y1 x1 c1. yoff1 ops3 = Some a3 \<and> xoff1 ops3 = Some a4 \<and>
              corrXY1 ops3 = Some a5 \<and>
              iadd2 a3 (offsets3 offs) = Inr y1 \<and> iadd2 a4 (offsets4 offs) = Inr x1 \<and>
              iadd2 a5 (offsets5 offs) = Inr c1 \<and>
              ops4 = ops3\<lparr>yoff := Some y, xoff := Some x, corrXY := Some c,
                         yoff1 := Some y1, xoff1 := Some x1, corrXY1 := Some c1\<rparr>))"
    by blast
  from o4 have r4: "yoff ops4 = Some y" "xoff ops4 = Some x" "corrXY ops4 = Some c"
    by auto
  note h0 = iadd_history [OF ad0 b0 n1] and h1 = iadd_history [OF ad1 b1 n1]
    and h2 = iadd_history [OF ad2 b2 n1]
  \<comment> \<open>lines 142-146, first registration\<close>
  have first: "y = offsets0 offs \<and> x = offsets1 offs \<and> c = offsets2 offs"
    if "yoff (a_ops a) = None"
  proof -
    from init_offsets_Inr [OF i] that p_y p_n s
    have "a0 = replicate n 0 \<and> a1 = replicate n 0 \<and> a2 = replicate n 0"
      by (auto simp add: n_def)
    with ad0 ad1 ad2 b0 b1 b2 show ?thesis
      by (auto dest: iadd_zeros)
  qed
  have again: "\<forall>i<n. y ! i = y0 ! i + offsets0 offs ! i \<and> x ! i = x0 ! i + offsets1 offs ! i \<and>
                 c ! i = c0 ! i + offsets2 offs ! i"
    if "yoff (a_ops a) = Some y0" and "xoff (a_ops a) = Some x0" and "corrXY (a_ops a) = Some c0"
    for y0 x0 c0
  proof -
    from init_offsets_Inr [OF i] that(1) p_y have "ops3 = ops2" by auto
    with s that p_y p_x p_c have "a0 = y0" "a1 = x0" "a2 = c0" by simp_all
    with h0 h1 h2 show ?thesis by simp
  qed
  have rigid: "yoff ops' = Some y \<and> xoff ops' = Some x \<and> corrXY ops' = Some c \<and>
           length y = nat (nframes ops') \<and> length x = nat (nframes ops') \<and>
           length c = nat (nframes ops')"
    using q_y q_x q_c r4 h0 h1 h2 nn by simp
  have block: "\<exists>y1 x1 c1. yoff1 ops' = Some y1 \<and> xoff1 ops' = Some x1 \<and> corrXY1 ops' = Some c1 \<and>
                 length (rows y1) = n \<and> length (rows x1) = n \<and> length (rows c1) = n \<and>
                 (yoff (a_ops a) = None \<longrightarrow>
                    (\<forall>n0 n1. nblocks (a_ops a) = Some (n0, n1) \<longrightarrow>
                       (ncols (offsets3 offs) = nat (n0 * n1) \<longrightarrow> y1 = offsets3 offs) \<and>
                       (ncols (offsets4 offs) = nat (n0 * n1) \<longrightarrow> x1 = offsets4 offs) \<and>
                       (ncols (offsets5 offs) = nat (n0 * n1) \<longrightarrow> c1 = offsets5 offs))) \<and>
                 (\<forall>y10 x10 c10. yoff (a_ops a) \<noteq> None \<longrightarrow> yoff1 (a_ops a) = Some y10 \<longrightarrow>
                    xoff1 (a_ops a) = Some x10 \<longrightarrow> corrXY1 (a_ops a) = Some c10 \<longrightarrow>
                    (\<forall>i<n.
                       rows y1 ! i = iadd_row (rows y10 ! i) (rows (offsets3 offs) ! i) \<and>
                       rows x1 ! i = iadd_row (rows x10 ! i) (rows (offsets4 offs) ! i) \<and>
                       rows c1 ! i = iadd_row (rows c10 ! i) (rows (offsets5 offs) ! i)))"
    if nr: "nonrigid (a_ops a)"
  proof -
    from blocks nr have b3: "length (rows (offsets3 offs)) = n"
      and b4: "length (rows (offsets4 offs)) = n" and b5: "length (rows (offsets5 offs)) = n"
      by (simp_all add: offs_def n_def)
    from o4 nr nr3 obtain a3 a4 a5 y1 x1 c1 where
      s1: "yoff1 ops3 = Some a3" "xoff1 ops3 = Some a4" "corrXY1 ops3 = Some a5" and
      ad3: "iadd2 a3 (offsets3 offs) = Inr y1" and ad4: "iadd2 a4 (offsets4 offs) = Inr x1" and
      ad5: "iadd2 a5 (offsets5 offs) = Inr c1" and
      o4': "ops4 = ops3\<lparr>yoff := Some y, xoff := Some x, corrXY := Some c,
                         yoff1 := Some y1, xoff1 := Some x1, corrXY1 := Some c1\<rparr>"
      by auto
    note h3 = iadd2_history [OF ad3 b3 n1] and h4 = iadd2_history [OF ad4 b4 n1]
      and h5 = iadd2_history [OF ad5 b5 n1]
    from o4' q_y1 q_x1 q_c1 have r1: "yoff1 ops' = Some y1" "xoff1 ops' = Some x1"
      "corrXY1 ops' = Some c1" by simp_all
    have first1: "(ncols (offsets3 offs) = nat (n0 * n1) \<longrightarrow> y1 = offsets3 offs) \<and>
                  (ncols (offsets4 offs) = nat (n0 * n1) \<longrightarrow> x1 = offsets4 offs) \<and>
                  (ncols (offsets5 offs) = nat (n0 * n1) \<longrightarrow> c1 = offsets5 offs)"
      if "yoff (a_ops a) = None" and "nblocks (a_ops a) = Some (n0, n1)" for n0 n1
    proof -
      from init_offsets_Inr [OF i] that p_y p_n p_nr p_nb nr s1
      have z: "a3 = Arr2 (nat (n0 * n1)) (replicate n (replicate (nat (n0 * n1)) 0))"
        "a4 = a3" "a5 = a3"
        by (auto simp add: n_def np_zeros2_def split: if_splits)
      from z ad3 b3 have "ncols (offsets3 offs) = nat (n0 * n1) \<longrightarrow> y1 = offsets3 offs"
        by (auto dest: iadd2_zeros)
      moreover from z ad4 b4 have "ncols (offsets4 offs) = nat (n0 * n1) \<longrightarrow> x1 = offsets4 offs"
        by (auto dest: iadd2_zeros)
      moreover from z ad5 b5 have "ncols (offsets5 offs) = nat (n0 * n1) \<longrightarrow> c1 = offsets5 offs"
        by (auto dest: iadd2_zeros)
      ultimately show ?thesis by simp
    qed
    have again1: "\<forall>i<n.
                       rows y1 ! i = iadd_row (rows y10 ! i) (rows (offsets3 offs) ! i) \<and>
                       rows x1 ! i = iadd_row (rows x10 ! i) (rows (offsets4 offs) ! i) \<and>
                       rows c1 ! i = iadd_row (rows c10 ! i) (rows (offsets5 offs) ! i)"
      if "yoff (a_ops a) \<noteq> None" and "yoff1 (a_ops a) = Some y10"
        and "xoff1 (a_ops a) = Some x10" and "corrXY1 (a_ops a) = Some c10" for y10 x10 c10
    proof -
      from init_offsets_Inr [OF i] that(1) p_y have "ops3 = ops2" by auto
      with s1 that p_y1 p_x1 p_c1 have "a3 = y10" "a4 = x10" "a5 = c10" by simp_all
      with h3 h4 h5 show ?thesis by simp
    qed
    from r1 h3 h4 h5 first1 again1 show ?thesis by blast
  qed
  from rigid have rigid': "yoff ops' = Some y" "xoff ops' = Some x" "corrXY ops' = Some c"
    "length y = n" "length x = n" "length c = n"
    by (simp_all add: nn)
  have all: "yoff ops' = Some y \<and> xoff ops' = Some x \<and> corrXY ops' = Some c \<and>
           length y = n \<and> length x = n \<and>
           length c = n \<and>
           (yoff (a_ops a) = None \<longrightarrow>
              y = offsets0 offs \<and> x = offsets1 offs \<and>
              c = offsets2 offs) \<and>
           (\<forall>y0 x0 c0. yoff (a_ops a) = Some y0 \<longrightarrow> xoff (a_ops a) = Some x0 \<longrightarrow>
              corrXY (a_ops a) = Some c0 \<longrightarrow>
              (\<forall>i<n.
                 y ! i = y0 ! i + offsets0 offs ! i \<and>
                 x ! i = x0 ! i + offsets1 offs ! i \<and>
                 c ! i = c0 ! i + offsets2 offs ! i)) \<and>
           (nonrigid (a_ops a) \<longrightarrow>
              (\<exists>y1 x1 c1. yoff1 ops' = Some y1 \<and> xoff1 ops' = Some x1 \<and> corrXY1 ops' = Some c1 \<and>
                 length (rows y1) = n \<and>
                 length (rows x1) = n \<and>
                 length (rows c1) = n \<and>
                 (yoff (a_ops a) = None \<longrightarrow>
                    (\<forall>n0 n1. nblocks (a_ops a) = Some (n0, n1) \<longrightarrow>
                       (ncols (offsets3 offs) = nat (n0 * n1) \<longrightarrow>
                          y1 = offsets3 offs) \<and>
                       (ncols (offsets4 offs) = nat (n0 * n1) \<longrightarrow>
                          x1 = offsets4 offs) \<and>
                       (ncols (offsets5 offs) = nat (n0 * n1) \<longrightarrow>
                          c1 = offsets5 offs))) \<and>
                 (\<forall>y10 x10 c10. yoff (a_ops a) \<noteq> None \<longrightarrow> yoff1 (a_ops a) = Some y10 \<longrightarrow>
                    xoff1 (a_ops a) = Some x10 \<longrightarrow> corrXY1 (a_ops a) = Some c10 \<longrightarrow>
                    (\<forall>i<n.
                       rows y1 ! i = iadd_row (rows y10 ! i) (rows (offsets3 offs) ! i) \<and>
                       rows x1 ! i = iadd_row (rows x10 ! i) (rows (offsets4 offs) ! i) \<and>
                       rows c1 ! i = iadd_row (rows c10 ! i) (rows (offsets5 offs) ! i)))))"
  proof (intro conjI impI allI)
    show "yoff ops' = Some y" "xoff ops' = Some x" "corrXY ops' = Some c"
      "length y = n" "length x = n" "length c = n" by (rule rigid')+
  next
    assume "yoff (a_ops a) = None"
    from first [OF this] show "y = offsets0 offs" "x = offsets1 offs" "c = offsets2 offs"
      by simp_all
  next
    fix y0 x0 c0 i
    assume "yoff (a_ops a) = Some y0" "xoff (a_ops a) = Some x0" "corrXY (a_ops a) = Some c0"
      and "i < n"
    with again [of y0 x0 c0]
    show "y ! i = y0 ! i + offsets0 offs ! i" "x ! i = x0 ! i + offsets1 offs ! i"
      "c ! i = c0 ! i + offsets2 offs ! i" by simp_all
  next
    assume "nonrigid (a_ops a)"
    then show "\<exists>y1 x1 c1. yoff1 ops' = Some y1 \<and> xoff1 ops' = Some x1 \<and> corrXY1 ops' = Some c1 \<and>
                 length (rows y1) = n \<and>
                 length (rows x1) = n \<and>
                 length (rows c1) = n \<and>
                 (yoff (a_ops a) = None \<longrightarrow>
                    (\<forall>n0 n1. nblocks (a_ops a) = Some (n0, n1) \<longrightarrow>
                       (ncols (offsets3 offs) = nat (n0 * n1) \<longrightarrow>
                          y1 = offsets3 offs) \<and>
                       (ncols (offsets4 offs) = nat (n0 * n1) \<longrightarrow>
                          x1 = offsets4 offs) \<and>
                       (ncols (offsets5 offs) = nat (n0 * n1) \<longrightarrow>
                          c1 = offsets5 offs))) \<and>
                 (\<forall>y10 x10 c10. yoff (a_ops a) \<noteq> None \<longrightarrow> yoff1 (a_ops a) = Some y10 \<longrightarrow>
                    xoff1 (a_ops a) = Some x10 \<longrightarrow> corrXY1 (a_ops a) = Some c10 \<longrightarrow>
                    (\<forall>i<n.
                       rows y1 ! i = iadd_row (rows y10 ! i) (rows (offsets3 offs) ! i) \<and>
                       rows x1 ! i = iadd_row (rows x10 ! i) (rows (offsets4 offs) ! i) \<and>
                       rows c1 ! i = iadd_row (rows c10 ! i) (rows (offsets5 offs) ! i)))"
      by (rule block)
  qed
  show ?thesis
    unfolding nn offs_def [symmetric]
    by (rule exI [of _ y], rule exI [of _ x], rule exI [of _ c]) (rule all)
qed

theorem displacement_history_witness:
  "\<exists>l r. register_binary demo_env (One demo_ops2) None True = (l, Inr (One r)) \<and>
      nframes r = 50 \<and>
      yoff r = Some (replicate 50 1) \<and> xoff r = Some (replicate 50 2) \<and>
      corrXY r = Some (replicate 50 3) \<and>
      yoff1 r = Some (Arr2 6 (replicate 50 (replicate 6 1)))"
proof -
  from demo2_run obtain l r where
    run: "register_binary demo_env (One demo_ops2) None True = (l, Inr (One r))" by blast
  with demo2_nframes have nf: "nframes r = 50" by (simp add: returned_def)
  have engine: "nframes (a_ops demo_aligned2) = nframes (p_ops demo_prepared2)"
    by (simp add: demo_aligned2_def)
  have batch: "length (offsets0 (a_offsets demo_aligned2)) = nat (nframes (a_ops demo_aligned2)) \<and>
                length (offsets1 (a_offsets demo_aligned2)) = nat (nframes (a_ops demo_aligned2)) \<and>
                length (offsets2 (a_offsets demo_aligned2)) = nat (nframes (a_ops demo_aligned2))"
    by (simp add: demo_aligned2_def demo_prepared2_def demo_defs)
  have blocks: "nonrigid (a_ops demo_aligned2) \<longrightarrow>
                length (rows (offsets3 (a_offsets demo_aligned2))) = nat (nframes (a_ops demo_aligned2)) \<and>
                length (rows (offsets4 (a_offsets demo_aligned2))) = nat (nframes (a_ops demo_aligned2)) \<and>
                length (rows (offsets5 (a_offsets demo_aligned2))) = nat (nframes (a_ops demo_aligned2))"
    by (simp add: demo_aligned2_def demo_prepared2_def demo_defs)
  have crop: "\<forall>r. nframes (compute_crop demo_env r) = nframes r \<and>
                   yoff (compute_crop demo_env r) = yoff r \<and> xoff (compute_crop demo_env r) = xoff r \<and>
                   corrXY (compute_crop demo_env r) = corrXY r \<and>
                   yoff1 (compute_crop demo_env r) = yoff1 r \<and> xoff1 (compute_crop demo_env r) = xoff1 r \<and>
                   corrXY1 (compute_crop demo_env r) = corrXY1 r"
    by (simp add: demo_env_def)
  have st: "yoff (a_ops demo_aligned2) = None" "nonrigid (a_ops demo_aligned2)"
    "nblocks (a_ops demo_aligned2) = Some (2, 3)"
    "ncols (offsets3 (a_offsets demo_aligned2)) = nat (2 * 3)"
    by (simp_all add: demo_aligned2_def demo_prepared2_def demo_defs)
  from displacement_history [OF run demo2_prepare demo2_align engine batch blocks crop] st
  have "yoff r = Some (offsets0 (a_offsets demo_aligned2)) \<and>
        xoff r = Some (offsets1 (a_offsets demo_aligned2)) \<and>
        corrXY r = Some (offsets2 (a_offsets demo_aligned2)) \<and>
        yoff1 r = Some (offsets3 (a_offsets demo_aligned2))"
    by auto
  then have "yoff r = Some (replicate 50 1) \<and> xoff r = Some (replicate 50 2) \<and>
      corrXY r = Some (replicate 50 3) \<and>
      yoff1 r = Some (Arr2 6 (replicate 50 (replicate 6 1)))"
    by (simp add: demo_aligned2_def demo_defs)
  with run nf show ?thesis by blast
qed

end
